theory Spec2Isabelle
  imports Complex_Main "HOL-Library.AList" "HOL-Library.Sublist"
begin

section \<open>Python strings and numbers\<close>

text \<open>
  A Python \<open>str\<close> is modelled as a \<open>string\<close> whose characters are the code points
  below 256. Python's unbounded \<open>int\<close> is \<open>int\<close>; a Python \<open>float\<close> is modelled by
  the rational number it denotes, with exact arithmetic.
\<close>

definition nl :: string where
  "nl = [CHR 0x0A]"

definition sq :: string where
  "sq = [CHR 0x27]"

text \<open>\<open>sep.join(lines)\<close>.\<close>

fun join :: "string \<Rightarrow> string list \<Rightarrow> string" where
  "join sep [] = []"
| "join sep [x] = x"
| "join sep (x # y # ys) = x @ sep @ join sep (y # ys)"

text \<open>\<open>str.isspace\<close> on one character, for the code points below 256.\<close>

definition py_isspace :: "char \<Rightarrow> bool" where
  "py_isspace c =
     (let n = (of_char c :: nat)
      in (9 \<le> n \<and> n \<le> 13) \<or> (28 \<le> n \<and> n \<le> 32) \<or> n = 133 \<or> n = 160)"

text \<open>\<open>s.strip()\<close>.\<close>

definition py_strip :: "string \<Rightarrow> string" where
  "py_strip s = rev (dropWhile py_isspace (rev (dropWhile py_isspace s)))"

text \<open>\<open>str(n)\<close> for an integer: decimal digits, with a minus sign when negative.\<close>

function show_nat :: "nat \<Rightarrow> string" where
  "show_nat n =
     (if n < 10 then [''0123456789'' ! n]
      else show_nat (n div 10) @ [''0123456789'' ! (n mod 10)])"
  by pat_completeness auto
termination
  by (relation "measure id") auto

declare show_nat.simps [simp del]

definition show_int :: "int \<Rightarrow> string" where
  "show_int i = (if i < 0 then ''-'' @ show_nat (nat (- i)) else show_nat (nat i))"

text \<open>
  \<open>repr(s)\<close> for a string: single quotes unless the string holds a single quote and no
  double quote; the quote and the backslash are escaped, tab, newline and carriage
  return are written \<open>\t\<close>, \<open>\n\<close>, \<open>\r\<close>, and every other non-printable character as
  \<open>\xNN\<close>.
\<close>

definition hex2 :: "nat \<Rightarrow> string" where
  "hex2 n = [''0123456789abcdef'' ! (n div 16), ''0123456789abcdef'' ! (n mod 16)]"

definition py_isprintable :: "char \<Rightarrow> bool" where
  "py_isprintable c =
     (let n = (of_char c :: nat)
      in (32 \<le> n \<and> n \<le> 126) \<or> (161 \<le> n \<and> n \<noteq> 173))"

definition repr_char :: "char \<Rightarrow> char \<Rightarrow> string" where
  "repr_char quote c =
     (if c = quote \<or> c = CHR 0x5C then [CHR 0x5C, c]
      else if c = CHR 0x09 then [CHR 0x5C, CHR ''t'']
      else if c = CHR 0x0A then [CHR 0x5C, CHR ''n'']
      else if c = CHR 0x0D then [CHR 0x5C, CHR ''r'']
      else if py_isprintable c then [c]
      else [CHR 0x5C, CHR ''x''] @ hex2 (of_char c))"

definition py_repr :: "string \<Rightarrow> string" where
  "py_repr s =
     (let quote = (if CHR 0x27 \<in> set s \<and> CHR 0x22 \<notin> set s then CHR 0x22 else CHR 0x27)
      in [quote] @ concat (map (repr_char quote) s) @ [quote])"

text \<open>\<open>str(d)\<close> for a dict of strings, items in insertion order.\<close>

definition py_repr_dict :: "(string \<times> string) list \<Rightarrow> string" where
  "py_repr_dict d =
     ''{'' @ join '', '' (map (\<lambda>(k, v). py_repr k @ '': '' @ py_repr v) d) @ ''}''"

section \<open>XML comparator (\<open>common/xml_utils.py\<close>)\<close>

text \<open>
  An \<open>ET.Element\<close>: its tag (a namespace-qualified name is \<open>{uri}local\<close>), its text
  (\<open>None\<close> or a string), its attribute dict in insertion order, and its children.
\<close>

datatype element =
  Element (tag: string) (etext: "string option") (attrib: "(string \<times> string) list")
          (children: "element list")

text \<open>\<open>_strip_namespace\<close>: the part after the first closing brace, when there is one.\<close>

definition strip_namespace :: "string \<Rightarrow> string" where
  "strip_namespace t =
     (if CHR ''}'' \<in> set t then tl (dropWhile (\<lambda>c. c \<noteq> CHR ''}'') t) else t)"

text \<open>
  The dict comprehension \<open>{(_strip_namespace(k) if strip_ns else k): v for k, v in
  e.attrib.items()}\<close>: a later item with the same key overwrites the value and keeps the
  position of the first.
\<close>

definition attrib_dict :: "bool \<Rightarrow> (string \<times> string) list \<Rightarrow> (string \<times> string) list" where
  "attrib_dict strip_ns items =
     fold (\<lambda>(k, v) d. AList.update (if strip_ns then strip_namespace k else k) v d) items []"

text \<open>
  \<open>a1 != a2\<close> on two dicts: they differ when they do not hold the same items, in any
  order (the keys of a dict are distinct).
\<close>

definition dict_ne :: "(string \<times> string) list \<Rightarrow> (string \<times> string) list \<Rightarrow> bool" where
  "dict_ne a1 a2 = (set a1 \<noteq> set a2)"

text \<open>The four messages \<open>_compare_elements\<close> formats.\<close>

definition msg_tag_mismatch :: "string \<Rightarrow> string \<Rightarrow> string \<Rightarrow> string" where
  "msg_tag_mismatch path tag1 tag2 =
     ''Tag mismatch at '' @ path @ '': '' @ sq @ tag1 @ sq @ '' vs '' @ sq @ tag2 @ sq"

definition msg_text :: "string \<Rightarrow> string \<Rightarrow> string \<Rightarrow> string" where
  "msg_text current t1 t2 =
     ''Text at '' @ current @ '': '' @ sq @ t1 @ sq @ '' vs '' @ sq @ t2 @ sq"

definition msg_attributes ::
    "string \<Rightarrow> (string \<times> string) list \<Rightarrow> (string \<times> string) list \<Rightarrow> string" where
  "msg_attributes current a1 a2 =
     ''Attributes at '' @ current @ '': '' @ py_repr_dict a1 @ '' vs '' @ py_repr_dict a2"

definition msg_child_count :: "string \<Rightarrow> nat \<Rightarrow> nat \<Rightarrow> string" where
  "msg_child_count current n1 n2 =
     ''Child count at '' @ current @ '': '' @ show_nat n1 @ '' vs '' @ show_nat n2"

text \<open>
  \<open>_compare_elements\<close> appends to the list \<open>diffs\<close> it is given; the model takes the
  list (\<open>dfs\<close>) and returns it extended. \<open>compare_children\<close> is the loop over
  \<open>zip(children1, children2)\<close>.
\<close>

function (sequential) compare_elements ::
    "element \<Rightarrow> element \<Rightarrow> string \<Rightarrow> string list \<Rightarrow> bool \<Rightarrow> string list"
  and compare_children ::
    "element list \<Rightarrow> element list \<Rightarrow> string \<Rightarrow> string list \<Rightarrow> bool \<Rightarrow> string list"
where
  "compare_elements (Element g1 x1 at1 cs1) (Element g2 x2 at2 cs2) path dfs strip_ns =
     (let tag1 = (if strip_ns then strip_namespace g1 else g1);
          tag2 = (if strip_ns then strip_namespace g2 else g2);
          current = path @ ''/'' @ tag1
      in if tag1 \<noteq> tag2
         then dfs @ [msg_tag_mismatch path tag1 tag2]
         else
           let t1 = py_strip (case x1 of None \<Rightarrow> [] | Some s \<Rightarrow> s);
               t2 = py_strip (case x2 of None \<Rightarrow> [] | Some s \<Rightarrow> s);
               dfs1 = (if t1 \<noteq> t2 then dfs @ [msg_text current t1 t2] else dfs);
               a1 = attrib_dict strip_ns at1;
               a2 = attrib_dict strip_ns at2;
               dfs2 = (if dict_ne a1 a2 then dfs1 @ [msg_attributes current a1 a2] else dfs1);
               dfs3 = (if length cs1 \<noteq> length cs2
                       then dfs2 @ [msg_child_count current (length cs1) (length cs2)]
                       else dfs2)
           in compare_children cs1 cs2 current dfs3 strip_ns)"
| "compare_children (c1 # cs1) (c2 # cs2) current dfs strip_ns =
     compare_children cs1 cs2 current (compare_elements c1 c2 current dfs strip_ns) strip_ns"
| "compare_children [] cs2 current dfs strip_ns = dfs"
| "compare_children cs1 [] current dfs strip_ns = dfs"
  by pat_completeness auto
termination
  by (relation "measure (\<lambda>x. case x of
                  Inl (e1, e2, path, dfs, strip_ns) \<Rightarrow> size e1
                | Inr (cs1, cs2, path, dfs, strip_ns) \<Rightarrow> size_list size cs1)") auto

text \<open>
  \<open>parse_xml\<close> is \<open>ET.fromstring(xml_string.strip())\<close>. The parser of the standard
  library is a parameter of the model: it returns the root element, or the text of the
  \<open>ET.ParseError\<close> it raises.
\<close>

type_synonym xml_parser = "string \<Rightarrow> string + element"

definition parse_xml :: "xml_parser \<Rightarrow> string \<Rightarrow> string + element" where
  "parse_xml fromstring xml_string = fromstring (py_strip xml_string)"

text \<open>\<open>compare_xml\<close>: both documents are parsed inside one \<open>try\<close>, the first one first.\<close>

definition compare_xml ::
    "xml_parser \<Rightarrow> string \<Rightarrow> string \<Rightarrow> bool \<Rightarrow> bool \<times> string list" where
  "compare_xml fromstring xml1 xml2 strip_ns =
     (case parse_xml fromstring xml1 of
        Inl e \<Rightarrow> (False, [''XML parse error: '' @ e])
      | Inr root1 \<Rightarrow>
          (case parse_xml fromstring xml2 of
             Inl e \<Rightarrow> (False, [''XML parse error: '' @ e])
           | Inr root2 \<Rightarrow>
               (let dfs = compare_elements root1 root2 [] [] strip_ns
                in (length dfs = 0, dfs))))"

text \<open>The loop \<open>for i, d in enumerate(diffs[:20], 1)\<close> of \<open>xml_diff_report\<close>.\<close>

fun numbered :: "nat \<Rightarrow> string list \<Rightarrow> string list \<Rightarrow> string list" where
  "numbered i [] lines = lines"
| "numbered i (d # ds) lines =
     numbered (Suc i) ds (lines @ [''  '' @ show_nat i @ ''. '' @ d])"

definition xml_diff_report :: "xml_parser \<Rightarrow> string \<Rightarrow> string \<Rightarrow> string" where
  "xml_diff_report fromstring expected_xml actual_xml =
     (case compare_xml fromstring expected_xml actual_xml True of
        (is_equal, dfs) \<Rightarrow>
          if is_equal then ''XML documents are identical.''
          else
            let lines = [''Found '' @ show_nat (length dfs) @ '' difference(s):''];
                lines1 = numbered 1 (take 20 dfs) lines;
                lines2 = (if length dfs > 20
                          then lines1 @ [''  ... and '' @ show_nat (length dfs - 20) @ '' more'']
                          else lines1)
            in join nl lines2)"

section \<open>Data model (\<open>common/models.py\<close>)\<close>

record XmlPair =
  input_xml :: string
  output_xml :: string
  pair_id :: string

record TestDetail =
  pair_id :: string
  passed :: bool
  expected_snippet :: string
  actual_snippet :: string
  diff :: string

record TestResult =
  total_pairs :: int
  passed_pairs :: int
  accuracy :: rat
  details :: "TestDetail list"
  error_message :: string

section \<open>Sandboxed tester (\<open>tester/agent.py\<close>)\<close>

text \<open>
  An exception caught by \<open>except Exception\<close>: whether it is an instance of
  \<open>SyntaxError\<close>, and its text \<open>str(exc)\<close>. What \<open>except Exception\<close> does not
  catch (\<open>SystemExit\<close>, \<open>KeyboardInterrupt\<close>) ends the service and is not modelled.
\<close>

datatype py_exception = PyException (is_syntax_error: bool) (exc_str: string)

text \<open>
  The values a candidate can bind or return, as far as the tester observes them: a
  string, \<open>None\<close>, or another object with its type name \<open>type(v).__name__\<close>, its text
  \<open>str(v)\<close> and, when it is callable, what a call with one string argument does
  (it returns a value or raises). A call is taken to return: a candidate that never
  returns stalls the tester and produces no result at all.
\<close>

datatype py_value =
    PyStr string
  | PyNone
  | PyObject string string "(string \<Rightarrow> py_exception + py_value) option"

fun py_type_name :: "py_value \<Rightarrow> string" where
  "py_type_name (PyStr s) = ''str''"
| "py_type_name PyNone = ''NoneType''"
| "py_type_name (PyObject tn st f) = tn"

fun py_str :: "py_value \<Rightarrow> string" where
  "py_str (PyStr s) = s"
| "py_str PyNone = ''None''"
| "py_str (PyObject tn st f) = st"

text \<open>\<open>transform_fn(x)\<close>: calling a value that is not callable raises \<open>TypeError\<close>.\<close>

fun py_call :: "py_value \<Rightarrow> string \<Rightarrow> py_exception + py_value" where
  "py_call (PyObject tn st (Some f)) x = f x"
| "py_call v x =
     Inl (PyException False (sq @ py_type_name v @ sq @ '' object is not callable''))"

text \<open>A loaded module, as the attributes it binds; \<open>getattr(module, name, default)\<close>.\<close>

type_synonym py_module = "string \<Rightarrow> py_value option"

definition getattr :: "py_module \<Rightarrow> string \<Rightarrow> py_value \<Rightarrow> py_value" where
  "getattr mdl name dflt = (case mdl name of None \<Rightarrow> dflt | Some v \<Rightarrow> v)"

definition SAFE_MODULES :: "string list" where
  "SAFE_MODULES =
     [''xml'', ''xml.etree'', ''xml.etree.ElementTree'', ''xml.dom'', ''xml.dom.minidom'',
      ''xml.sax'', ''xml.parsers'', ''xml.parsers.expat'', ''re'', ''datetime'',
      ''collections'', ''json'', ''copy'', ''math'', ''string'', ''io'', ''functools'',
      ''itertools'']"

text \<open>\<open>', '.join(sorted(SAFE_MODULES))\<close>, the set sorted by code point.\<close>

definition sorted_SAFE_MODULES :: "string list" where
  "sorted_SAFE_MODULES =
     [''collections'', ''copy'', ''datetime'', ''functools'', ''io'', ''itertools'', ''json'',
      ''math'', ''re'', ''string'', ''xml'', ''xml.dom'', ''xml.dom.minidom'', ''xml.etree'',
      ''xml.etree.ElementTree'', ''xml.parsers'', ''xml.parsers.expat'', ''xml.sax'']"

text \<open>
  \<open>_restricted_import\<close>: the \<open>ImportError\<close> it raises for a module outside the
  allow-list, or \<open>None\<close> when it hands the name to the real import.
\<close>

definition restricted_import :: "string \<Rightarrow> py_exception option" where
  "restricted_import name =
     (if name \<notin> set SAFE_MODULES
      then Some (PyException False
             (''Module '' @ sq @ name @ sq @ '' is not allowed. ''
              @ ''Only these modules are permitted: '' @ join '', '' sorted_SAFE_MODULES))
      else None)"

text \<open>\<open>_snippet\<close>.\<close>

definition snippet :: "string \<Rightarrow> nat \<Rightarrow> string" where
  "snippet xml_string max_length =
     (let text = py_strip xml_string
      in if length text \<le> max_length then text else take max_length text @ ''...'')"

text \<open>
  \<open>_test_single_pair\<close>. \<open>format_exc\<close> stands for \<open>traceback.format_exc()\<close>, the text
  the interpreter renders for the exception being handled.
\<close>

definition test_single_pair ::
    "xml_parser \<Rightarrow> (py_exception \<Rightarrow> string) \<Rightarrow> py_value \<Rightarrow> XmlPair \<Rightarrow> TestDetail" where
  "test_single_pair fromstring format_exc transform_fn pair =
     (case py_call transform_fn (input_xml pair) of
        Inl exc \<Rightarrow>
          \<lparr>pair_id = XmlPair.pair_id pair, passed = False,
           expected_snippet = snippet (output_xml pair) 300, actual_snippet = [],
           diff = ''Runtime error: '' @ exc_str exc @ nl @ format_exc exc\<rparr>
      | Inr (PyStr actual_xml) \<Rightarrow>
          (let is_equal = fst (compare_xml fromstring (output_xml pair) actual_xml True);
               diff_report = (if is_equal then []
                              else xml_diff_report fromstring (output_xml pair) actual_xml)
           in \<lparr>pair_id = XmlPair.pair_id pair, passed = is_equal,
               expected_snippet = snippet (output_xml pair) 300,
               actual_snippet = snippet actual_xml 300, diff = diff_report\<rparr>)
      | Inr actual \<Rightarrow>
          \<lparr>pair_id = XmlPair.pair_id pair, passed = False,
           expected_snippet = snippet (output_xml pair) 300,
           actual_snippet = take 300 (py_str actual),
           diff = ''transform_xml returned '' @ py_type_name actual @ '', expected str.''\<rparr>)"

text \<open>
  The loop \<open>for pair in xml_pairs\<close> of \<open>test_code\<close>, with its two accumulators. The
  third accumulator is not in the source: it logs the argument of every invocation of
  the entry point (\<open>_test_single_pair\<close> makes exactly one, as its first statement).
\<close>

fun test_pairs ::
    "xml_parser \<Rightarrow> (py_exception \<Rightarrow> string) \<Rightarrow> py_value \<Rightarrow> XmlPair list
     \<Rightarrow> TestDetail list \<Rightarrow> int \<Rightarrow> string list \<Rightarrow> TestDetail list \<times> int \<times> string list" where
  "test_pairs fromstring format_exc transform_fn [] dets passed_count calls =
     (dets, passed_count, calls)"
| "test_pairs fromstring format_exc transform_fn (pair # rest) dets passed_count calls =
     (let detail = test_single_pair fromstring format_exc transform_fn pair
      in test_pairs fromstring format_exc transform_fn rest (dets @ [detail])
           (if passed detail then passed_count + 1 else passed_count)
           (calls @ [input_xml pair]))"

text \<open>\<open>round(x, ndigits)\<close>: to the nearest multiple of \<open>10 ^ -ndigits\<close>, ties to even.\<close>

definition round_half_even :: "rat \<Rightarrow> int" where
  "round_half_even q =
     (let f = \<lfloor>q\<rfloor>; d = q - of_int f
      in if d < 1 / 2 then f else if 1 / 2 < d then f + 1 else if even f then f else f + 1)"

definition py_round :: "rat \<Rightarrow> nat \<Rightarrow> rat" where
  "py_round x ndigits = of_int (round_half_even (x * 10 ^ ndigits)) / 10 ^ ndigits"

definition failed_run :: "XmlPair list \<Rightarrow> string \<Rightarrow> TestResult" where
  "failed_run xml_pairs msg =
     \<lparr>total_pairs = int (length xml_pairs), passed_pairs = 0, accuracy = 0, details = [],
      error_message = msg\<rparr>"

text \<open>
  \<open>test_code\<close>. \<open>load\<close> stands for \<open>_load_code_module\<close>, that is \<open>compile\<close> and
  \<open>exec\<close> of the candidate in the sandbox namespace: it returns the module or the
  exception raised. The result comes with the log of entry-point invocations.
\<close>

definition test_code ::
    "(string \<Rightarrow> py_exception + py_module) \<Rightarrow> xml_parser \<Rightarrow> (py_exception \<Rightarrow> string)
     \<Rightarrow> string \<Rightarrow> XmlPair list \<Rightarrow> TestResult \<times> string list" where
  "test_code load fromstring format_exc code xml_pairs =
     (case load code of
        Inl exc \<Rightarrow>
          (if is_syntax_error exc
           then (failed_run xml_pairs (''Syntax error in generated code: '' @ exc_str exc), [])
           else (failed_run xml_pairs (''Failed to load generated code: '' @ exc_str exc), []))
      | Inr mdl \<Rightarrow>
          (case getattr mdl ''transform_xml'' PyNone of
             PyNone \<Rightarrow>
               (failed_run xml_pairs
                  (''Generated code does not define a '' @ sq @ ''transform_xml'' @ sq
                   @ '' function.''), [])
           | transform_fn \<Rightarrow>
               (case test_pairs fromstring format_exc transform_fn xml_pairs [] 0 [] of
                  (dets, passed_count, calls) \<Rightarrow>
                    (let total = int (length xml_pairs);
                         acc = (if total > 0 then of_int passed_count / of_int total else 0)
                     in (\<lparr>total_pairs = total, passed_pairs = passed_count,
                          accuracy = py_round acc 4, details = dets, error_message = []\<rparr>,
                         calls)))))"

section \<open>Orchestrator (\<open>gateway/orchestrator.py\<close>)\<close>

datatype JobStatus = PENDING | ANALYZING | GENERATING | TESTING | ITERATING | COMPLETED | FAILED

record GeneratedCode =
  code :: string
  language :: string
  description :: string
  iteration :: int

text \<open>
  \<open>ConversionJob\<close>. The analysis result is forwarded and never inspected, so it is
  a type parameter; \<open>created_at\<close> is set once and never read.
\<close>

record 'a ConversionJob =
  job_id :: string
  status :: JobStatus
  xml_pairs :: "XmlPair list"
  analysis :: "'a option"
  generated_code :: "GeneratedCode option"
  test_result :: "TestResult option"
  current_iteration :: int
  max_iterations :: int
  accuracy_threshold :: rat
  message :: string

text \<open>The format \<open>{x:.0%}\<close>: the percentage rounded to an integer, ties to even.\<close>

definition fmt_percent :: "rat \<Rightarrow> string" where
  "fmt_percent x =
     (if x < 0 then ''-'' @ show_nat (nat (round_half_even (- x * 100))) @ ''%''
      else show_nat (nat (round_half_even (x * 100))) @ ''%'')"

text \<open>
  What the orchestrator observes of an \<open>httpx.Response\<close>: the status code; the body
  text; \<open>json_detail\<close>, the text of \<open>body.get("detail", str(body))\<close> when
  \<open>resp.json()\<close> returns a dict \<open>body\<close>, and \<open>None\<close> when \<open>resp.json()\<close> or
  \<open>body.get\<close> raises (the body is not JSON, or not a dict); and \<open>parsed\<close>,
  the outcome of \<open>resp.json()\<close> followed by the constructor of the response model
  (\<open>AnalysisResult(**data)\<close>, \<open>GeneratedCode(**data)\<close>, \<open>TestResult(**data)\<close>), which
  is the model or the exception raised.
\<close>

record 'm http_response =
  status_code :: int
  resp_text :: string
  json_detail :: "string option"
  parsed :: "py_exception + 'm"

text \<open>\<open>_check_response\<close>, followed by the construction of the response model.\<close>

definition check_response :: "'m http_response \<Rightarrow> string \<Rightarrow> py_exception + 'm" where
  "check_response resp service_name =
     (if status_code resp \<ge> 400
      then
        let detail = (case json_detail resp of
                        Some d \<Rightarrow> d
                      | None \<Rightarrow> take 500 (resp_text resp))
        in Inl (PyException False
                  (''['' @ service_name @ ''] '' @ show_int (status_code resp) @ '': '' @ detail))
      else parsed resp)"

text \<open>The JSON payload of each request; \<open>feedback\<close> is present only when non-empty.\<close>

datatype 'a request =
    AnalyzeRequest "XmlPair list" "string option"
  | GenerateRequest "XmlPair list" "'a option" "string option"
  | TestRequest "XmlPair list" string

text \<open>
  The three collaborators behind \<open>client.post\<close>. Each call takes the state of the
  outside world and returns it changed, with the response or the exception the call
  raises (a transport failure).
\<close>

record ('w, 'a) services =
  post_analyze :: "'w \<Rightarrow> 'a request \<Rightarrow> (py_exception + 'a http_response) \<times> 'w"
  post_generate :: "'w \<Rightarrow> 'a request \<Rightarrow> (py_exception + GeneratedCode http_response) \<times> 'w"
  post_test :: "'w \<Rightarrow> 'a request \<Rightarrow> (py_exception + TestResult http_response) \<times> 'w"

text \<open>What came back from a call, by collaborator.\<close>

datatype 'a reply =
    AnalyzeReply "py_exception + 'a http_response"
  | GenerateReply "py_exception + GeneratedCode http_response"
  | TestReply "py_exception + TestResult http_response"

text \<open>
  The state a step works on: the job (mutated in place by the source), the outside
  world, and the log of the calls made so far, each with what came back. The log is
  not in the source. A step returns the exception it raised, if any, with the state as
  it was then.
\<close>

type_synonym ('w, 'a) run_state = "'a ConversionJob \<times> 'w \<times> ('a request \<times> 'a reply) list"

definition analyze ::
    "('w, 'a) services \<Rightarrow> string \<Rightarrow> ('w, 'a) run_state
     \<Rightarrow> py_exception option \<times> ('w, 'a) run_state" where
  "analyze srv feedback st =
     (case st of (job, w, tr) \<Rightarrow>
        let job1 = job\<lparr>status := ANALYZING,
                        message := (if feedback \<noteq> []
                                    then ''Re-analyzing rules with feedback (iteration ''
                                         @ show_int (current_iteration job) @ '')...''
                                    else ''Analyzing XML pairs...'')\<rparr>;
            req = AnalyzeRequest (xml_pairs job1) (if feedback \<noteq> [] then Some feedback else None)
        in case post_analyze srv w req of
             (reply, w1) \<Rightarrow>
               (let tr1 = tr @ [(req, AnalyzeReply reply)]
                in case reply of
                     Inl exc \<Rightarrow> (Some exc, job1, w1, tr1)
                   | Inr resp \<Rightarrow>
                       (case check_response resp ''Analyzer'' of
                          Inl exc \<Rightarrow> (Some exc, job1, w1, tr1)
                        | Inr a \<Rightarrow> (None, job1\<lparr>analysis := Some a\<rparr>, w1, tr1))))"

definition generate ::
    "('w, 'a) services \<Rightarrow> string \<Rightarrow> ('w, 'a) run_state
     \<Rightarrow> py_exception option \<times> ('w, 'a) run_state" where
  "generate srv feedback st =
     (case st of (job, w, tr) \<Rightarrow>
        let job1 = job\<lparr>status := GENERATING,
                        message := ''Generating code (iteration ''
                                   @ show_int (current_iteration job) @ '')...''\<rparr>;
            req = GenerateRequest (xml_pairs job1) (analysis job1)
                    (if feedback \<noteq> [] then Some feedback else None)
        in case post_generate srv w req of
             (reply, w1) \<Rightarrow>
               (let tr1 = tr @ [(req, GenerateReply reply)]
                in case reply of
                     Inl exc \<Rightarrow> (Some exc, job1, w1, tr1)
                   | Inr resp \<Rightarrow>
                       (case check_response resp ''Generator'' of
                          Inl exc \<Rightarrow> (Some exc, job1, w1, tr1)
                        | Inr g \<Rightarrow> (None, job1\<lparr>generated_code := Some g\<rparr>, w1, tr1))))"

definition test ::
    "('w, 'a) services \<Rightarrow> ('w, 'a) run_state \<Rightarrow> py_exception option \<times> ('w, 'a) run_state" where
  "test srv st =
     (case st of (job, w, tr) \<Rightarrow>
        let job1 = job\<lparr>status := TESTING,
                        message := ''Testing generated code (iteration ''
                                   @ show_int (current_iteration job) @ '')...''\<rparr>;
            req = TestRequest (xml_pairs job1)
                    (case generated_code job1 of Some g \<Rightarrow> code g | None \<Rightarrow> [])
        in case post_test srv w req of
             (reply, w1) \<Rightarrow>
               (let tr1 = tr @ [(req, TestReply reply)]
                in case reply of
                     Inl exc \<Rightarrow> (Some exc, job1, w1, tr1)
                   | Inr resp \<Rightarrow>
                       (case check_response resp ''Tester'' of
                          Inl exc \<Rightarrow> (Some exc, job1, w1, tr1)
                        | Inr r \<Rightarrow> (None, job1\<lparr>test_result := Some r\<rparr>, w1, tr1))))"

text \<open>The loop \<open>for detail in job.test_result.details\<close> of \<open>_build_feedback\<close>.\<close>

fun feedback_details :: "TestDetail list \<Rightarrow> string list \<Rightarrow> string list" where
  "feedback_details [] lines = lines"
| "feedback_details (detail # rest) lines =
     (if \<not> passed detail
      then
        let lines1 = lines @ [''--- Pair '' @ TestDetail.pair_id detail @ '' FAILED ---''];
            lines2 = (if diff detail \<noteq> []
                      then lines1 @ [''Diff:'' @ nl @ diff detail]
                      else if expected_snippet detail \<noteq> [] \<or> actual_snippet detail \<noteq> []
                      then lines1 @ [''Expected snippet:'' @ nl @ expected_snippet detail]
                                  @ [''Actual snippet:'' @ nl @ actual_snippet detail]
                      else lines1)
        in feedback_details rest (lines2 @ [''''])
      else feedback_details rest lines)"

text \<open>\<open>_build_feedback\<close>.\<close>

definition build_feedback :: "'a ConversionJob \<Rightarrow> string" where
  "build_feedback job =
     (case test_result job of
        None \<Rightarrow> []
      | Some r \<Rightarrow>
          if accuracy r \<ge> accuracy_threshold job then []
          else
            let lines = [''Previous iteration accuracy: '' @ fmt_percent (accuracy r) @ ''.'',
                         ''Passed '' @ show_int (passed_pairs r) @ ''/''
                         @ show_int (total_pairs r) @ '' pairs.'',
                         ''''];
                lines1 = (if error_message r \<noteq> []
                          then lines @ [''Error: '' @ error_message r] @ ['''']
                          else lines)
            in join nl (feedback_details (details r) lines1))"

text \<open>The messages \<open>run\<close> formats.\<close>

definition msg_completed :: "rat \<Rightarrow> int \<Rightarrow> string" where
  "msg_completed acc n =
     ''Completed with '' @ fmt_percent acc @ '' accuracy after '' @ show_int n
     @ '' iteration(s).''"

definition msg_iterating :: "int \<Rightarrow> rat \<Rightarrow> rat \<Rightarrow> string" where
  "msg_iterating n acc threshold =
     ''Iteration '' @ show_int n @ '' accuracy '' @ fmt_percent acc @ '' below threshold ''
     @ fmt_percent threshold @ '' -- re-analyzing rules.''"

definition msg_exhausted :: "int \<Rightarrow> string \<Rightarrow> string" where
  "msg_exhausted n accuracy_str =
     ''Completed after '' @ show_int n @ '' iteration(s) with '' @ accuracy_str
     @ '' accuracy (max iterations reached).''"

text \<open>
  The error raised by \<open>job.test_result.accuracy\<close> when \<open>test_result\<close> is \<open>None\<close>.
\<close>

definition no_accuracy_error :: py_exception where
  "no_accuracy_error =
     PyException False
       (sq @ ''NoneType'' @ sq @ '' object has no attribute '' @ sq @ ''accuracy'' @ sq)"

text \<open>
  The \<open>while\<close> loop of \<open>run\<close>, with the code after it in the last branch. The result
  holds the exception that escaped, if any.
\<close>

function run_loop ::
    "('w, 'a) services \<Rightarrow> string \<Rightarrow> ('w, 'a) run_state
     \<Rightarrow> py_exception option \<times> ('w, 'a) run_state" where
  "run_loop srv feedback (job, w, tr) =
     (if current_iteration job < max_iterations job
      then
        (case analyze srv feedback (job\<lparr>current_iteration := current_iteration job + 1\<rparr>, w, tr) of
           (Some exc, st) \<Rightarrow> (Some exc, st)
         | (None, st1) \<Rightarrow>
             (case generate srv feedback st1 of
                (Some exc, st) \<Rightarrow> (Some exc, st)
              | (None, st2) \<Rightarrow>
                  (case test srv st2 of
                     (Some exc, st) \<Rightarrow> (Some exc, st)
                   | (None, job3, w3, tr3) \<Rightarrow>
                       (case test_result job3 of
                          Some r \<Rightarrow>
                            if accuracy r \<ge> accuracy_threshold job3
                            then (None,
                                  job3\<lparr>status := COMPLETED,
                                       message := msg_completed (accuracy r)
                                                    (current_iteration job3)\<rparr>,
                                  w3, tr3)
                            else if current_iteration job3 < max_iterations job3
                            then run_loop srv (build_feedback job3)
                                   (job3\<lparr>status := ITERATING,
                                         message := msg_iterating (current_iteration job3)
                                                      (accuracy r) (accuracy_threshold job3)\<rparr>,
                                    w3, tr3)
                            else run_loop srv (build_feedback job3) (job3, w3, tr3)
                        | None \<Rightarrow>
                            if current_iteration job3 < max_iterations job3
                            then (Some no_accuracy_error, job3\<lparr>status := ITERATING\<rparr>, w3, tr3)
                            else run_loop srv (build_feedback job3) (job3, w3, tr3)))))
      else
        (let accuracy_str = (case test_result job of
                               Some r \<Rightarrow> fmt_percent (accuracy r)
                             | None \<Rightarrow> ''N/A'')
         in (None,
             job\<lparr>status := COMPLETED,
                  message := msg_exhausted (current_iteration job) accuracy_str\<rparr>,
             w, tr)))"
  by pat_completeness auto
termination
proof (relation "measure (\<lambda>(srv, feedback, job, w, tr).
                   nat (max_iterations job - current_iteration job))")
qed (auto simp: analyze_def generate_def test_def Let_def
          split: prod.splits sum.splits option.splits if_splits)

declare run_loop.simps [simp del]

text \<open>
  \<open>run\<close>: the loop inside \<open>try\<close>, and the handler \<open>except Exception\<close>. It returns
  the job with the outside world and the log of calls.
\<close>

definition run ::
    "('w, 'a) services \<Rightarrow> (py_exception \<Rightarrow> string) \<Rightarrow> 'a ConversionJob \<Rightarrow> 'w
     \<Rightarrow> ('w, 'a) run_state" where
  "run srv format_exc job w =
     (case run_loop srv [] (job, w, []) of
        (None, st) \<Rightarrow> st
      | (Some exc, job1, w1, tr1) \<Rightarrow>
          (job1\<lparr>status := FAILED,
                message := ''Error: '' @ exc_str exc @ nl @ format_exc exc\<rparr>,
           w1, tr1))"

section \<open>Definitions used to state and instantiate the properties\<close>

text \<open>
  The tree in which every element name and attribute name is replaced by its local
  part: the view of a document that ignores namespace qualification.
\<close>

primrec local_names :: "element \<Rightarrow> element" where
  "local_names (Element g x ats cs) =
     Element (strip_namespace g) x (map (\<lambda>(k, v). (strip_namespace k, v)) ats)
       (map local_names cs)"

text \<open>
  Sample documents, with the trees \<open>ET.fromstring\<close> builds for them: a qualified name
  is stored as \<open>{uri}local\<close>, and a namespace declaration is not an attribute.
\<close>

definition doc_prefixed :: string where
  "doc_prefixed = ''<a xmlns:x='' @ [CHR 0x22] @ ''u'' @ [CHR 0x22] @ ''><x:b>1</x:b></a>''"

definition doc_plain :: string where
  "doc_plain = ''<a><b>1</b></a>''"

definition tree_prefixed :: element where
  "tree_prefixed = Element ''a'' None [] [Element ''{u}b'' (Some ''1'') [] []]"

definition tree_plain :: element where
  "tree_plain = Element ''a'' None [] [Element ''b'' (Some ''1'') [] []]"

definition doc_value_5 :: string where
  "doc_value_5 = ''<Root><Code><Value>5</Value></Code></Root>''"

definition doc_value_05 :: string where
  "doc_value_05 = ''<Root><Code><Value>05</Value></Code></Root>''"

definition tree_value :: "string \<Rightarrow> element" where
  "tree_value v =
     Element ''Root'' None [] [Element ''Code'' None [] [Element ''Value'' (Some v) [] []]]"

definition sample_fromstring :: xml_parser where
  "sample_fromstring s =
     (if s = doc_prefixed then Inr tree_prefixed
      else if s = doc_plain then Inr tree_plain
      else if s = doc_value_5 then Inr (tree_value ''5'')
      else if s = doc_value_05 then Inr (tree_value ''05'')
      else Inl ''syntax error: line 1, column 0'')"

text \<open>\<open>callable(v)\<close>.\<close>

fun py_callable :: "py_value \<Rightarrow> bool" where
  "py_callable (PyObject tn st (Some f)) = True"
| "py_callable v = False"

text \<open>
  Sample candidates. \<open>identity_source\<close> is
  \<^verbatim>\<open>def transform_xml(x): return x\<close>
  and \<open>partial_source\<close> is
  \<^verbatim>\<open>def transform_xml(x):
    if x == "<bad/>": raise ValueError("unsupported document")
    return x\<close>
\<close>

definition dq :: string where
  "dq = [CHR 0x22]"

definition identity_source :: string where
  "identity_source = ''def transform_xml(x): return x''"

definition partial_source :: string where
  "partial_source =
     ''def transform_xml(x):'' @ nl
     @ ''    if x == '' @ dq @ ''<bad/>'' @ dq @ '': raise ValueError('' @ dq
     @ ''unsupported document'' @ dq @ '')'' @ nl
     @ ''    return x''"

text \<open>
  What the interpreter does with a few candidates: one that imports a module outside
  the allow-list, one with a syntax error, one that binds \<open>transform_xml\<close> to \<open>None\<close>,
  one that binds it to an integer, and the two above, whose functions return their
  input, the second raising on the input \<open><bad/>\<close>.
\<close>

definition bind_transform_xml :: "py_value \<Rightarrow> py_module" where
  "bind_transform_xml v = (\<lambda>name. if name = ''transform_xml'' then Some v else None)"

definition sample_identity :: py_value where
  "sample_identity = PyObject ''function'' ''<function transform_xml>'' (Some (\<lambda>x. Inr (PyStr x)))"

definition sample_partial :: py_value where
  "sample_partial =
     PyObject ''function'' ''<function transform_xml>''
       (Some (\<lambda>x. if x = ''<bad/>'' then Inl (PyException False ''unsupported document'')
                   else Inr (PyStr x)))"

definition sample_load :: "string \<Rightarrow> py_exception + py_module" where
  "sample_load src =
     (if src = ''import os''
      then (case restricted_import ''os'' of Some e \<Rightarrow> Inl e | None \<Rightarrow> Inr (\<lambda>name. None))
      else if src = ''def transform_xml(''
      then Inl (PyException True (sq @ ''('' @ sq @ '' was never closed (<generated>, line 1)''))
      else if src = ''transform_xml = None'' then Inr (bind_transform_xml PyNone)
      else if src = ''transform_xml = 5'' then Inr (bind_transform_xml (PyObject ''int'' ''5'' None))
      else if src = identity_source then Inr (bind_transform_xml sample_identity)
      else if src = partial_source then Inr (bind_transform_xml sample_partial)
      else Inr (\<lambda>name. None))"

definition sample_format_exc :: "py_exception \<Rightarrow> string" where
  "sample_format_exc e =
     ''Traceback (most recent call last):'' @ nl @ ''Exception: '' @ exc_str e @ nl"

definition sample_pairs :: "XmlPair list" where
  "sample_pairs =
     [\<lparr>input_xml = doc_value_5, output_xml = doc_value_5, pair_id = ''A''\<rparr>,
      \<lparr>input_xml = ''<bad/>'', output_xml = doc_plain, pair_id = ''B''\<rparr>,
      \<lparr>input_xml = doc_plain, output_xml = doc_plain, pair_id = ''C''\<rparr>]"


text \<open>
  The exception a call ends in, if any: the one \<open>client.post\<close> raised, or the one
  raised while checking and decoding the response.
\<close>

definition failure_of :: "py_exception + 'm http_response \<Rightarrow> string \<Rightarrow> py_exception option" where
  "failure_of reply service_name =
     (case reply of
        Inl exc \<Rightarrow> Some exc
      | Inr resp \<Rightarrow>
          (case check_response resp service_name of Inl exc \<Rightarrow> Some exc | Inr x \<Rightarrow> None))"


fun reply_error :: "'a reply \<Rightarrow> py_exception option" where
  "reply_error (AnalyzeReply r) = failure_of r ''Analyzer''"
| "reply_error (GenerateReply r) = failure_of r ''Generator''"
| "reply_error (TestReply r) = failure_of r ''Tester''"

text \<open>
  A sample job, as the gateway creates it, and sample collaborators: a result below
  the threshold (the pair \<open>B\<close> differs in one text node), collaborators that always
  answer with it, an Analyzer that answers 500 with a body that is not JSON, and an
  Analyzer that cannot be reached.
\<close>

definition sample_job :: "unit ConversionJob" where
  "sample_job =
     \<lparr>job_id = ''job-1'', status = PENDING, xml_pairs = sample_pairs, analysis = None,
      generated_code = None, test_result = None, current_iteration = 0, max_iterations = 5,
      accuracy_threshold = 95 / 100, message = []\<rparr>"

definition sample_result :: TestResult where
  "sample_result =
     \<lparr>total_pairs = 2, passed_pairs = 1, accuracy = 1 / 2,
      details =
        [\<lparr>pair_id = ''A'', passed = True, expected_snippet = doc_value_5,
          actual_snippet = doc_value_5, diff = []\<rparr>,
         \<lparr>pair_id = ''B'', passed = False, expected_snippet = doc_value_05,
          actual_snippet = doc_value_5,
          diff = ''Found 1 difference(s):'' @ nl @ ''  1. Text at /Root/Code/Value: ''
                 @ sq @ ''05'' @ sq @ '' vs '' @ sq @ ''5'' @ sq\<rparr>],
      error_message = []\<rparr>"

definition sample_code :: GeneratedCode where
  "sample_code = \<lparr>code = identity_source, language = ''python'', description = [], iteration = 1\<rparr>"

definition ok_response :: "'m \<Rightarrow> 'm http_response" where
  "ok_response m = \<lparr>status_code = 200, resp_text = ''{}'', json_detail = Some ''{}'', parsed = Inr m\<rparr>"

definition ok_services :: "(unit, unit) services" where
  "ok_services =
     \<lparr>post_analyze = (\<lambda>w q. (Inr (ok_response ()), w)),
      post_generate = (\<lambda>w q. (Inr (ok_response sample_code), w)),
      post_test = (\<lambda>w q. (Inr (ok_response sample_result), w))\<rparr>"

definition error_500 :: "unit http_response" where
  "error_500 =
     \<lparr>status_code = 500, resp_text = ''Internal Server Error'', json_detail = None,
      parsed = Inl (PyException False ''Expecting value: line 1 column 1 (char 0)'')\<rparr>"

definition failing_services :: "(unit, unit) services" where
  "failing_services = ok_services\<lparr>post_analyze := (\<lambda>w q. (Inr error_500, w))\<rparr>"

definition unreachable_services :: "(unit, unit) services" where
  "unreachable_services =
     ok_services\<lparr>post_analyze :=
                   (\<lambda>w q. (Inl (PyException False ''All connection attempts failed''), w))\<rparr>"

section \<open>XML comparator: properties\<close>

lemma strip_namespace_qualified:
  "CHR ''}'' \<notin> set uri \<Longrightarrow> strip_namespace (''{'' @ uri @ ''}'' @ local) = local"
  by (simp add: strip_namespace_def dropWhile_append)

lemma attrib_dict_local_names:
  "attrib_dict False (map (\<lambda>(k, v). (strip_namespace k, v)) ats) = attrib_dict True ats"
  by (simp add: attrib_dict_def fold_map comp_def case_prod_unfold)

lemma compare_local_names:
  "compare_elements e1 e2 path dfs True
     = compare_elements (local_names e1) (local_names e2) path dfs False"
  "compare_children cs1 cs2 path dfs True
     = compare_children (map local_names cs1) (map local_names cs2) path dfs False"
proof (induction e1 e2 path dfs "True" and cs1 cs2 path dfs "True"
       rule: compare_elements_compare_children.induct)
  case (1 g1 x1 at1 cs1 g2 x2 at2 cs2 path dfs)
  then show ?case by (simp add: attrib_dict_local_names Let_def)
qed simp_all

lemma py_strip_doc_prefixed: "py_strip doc_prefixed = doc_prefixed"
  by (simp add: py_strip_def doc_prefixed_def py_isspace_def)

lemma py_strip_doc_plain: "py_strip doc_plain = doc_plain"
  by (simp add: py_strip_def doc_plain_def py_isspace_def)

lemma compare_sample_trees: "compare_elements tree_prefixed tree_plain [] [] True = []"
  by (simp add: tree_prefixed_def tree_plain_def strip_namespace_def attrib_dict_def dict_ne_def)

text \<open>
  Claim C6. The comparison ignores namespace qualification: the local part of a
  qualified name \<open>{uri}local\<close> is what \<open>_strip_namespace\<close> keeps; comparing two trees
  with stripping is comparing, name for name, the trees of their local names; and for
  the documents \<open><a xmlns:x="u"><x:b>1</x:b></a>\<close> and \<open><a><b>1</b></a>\<close>, parsed as
  \<open>ET.fromstring\<close> parses them, \<open>compare_xml\<close> answers equal with no difference.
\<close>

theorem namespace_insensitive:
  "(CHR ''}'' \<notin> set uri \<longrightarrow> strip_namespace (''{'' @ uri @ ''}'' @ local) = local)
   \<and> compare_elements e1 e2 path dfs True
       = compare_elements (local_names e1) (local_names e2) path dfs False
   \<and> (fromstring doc_prefixed = Inr tree_prefixed \<and> fromstring doc_plain = Inr tree_plain
        \<longrightarrow> compare_xml fromstring doc_prefixed doc_plain True = (True, []))"
proof (intro conjI impI)
  assume "CHR ''}'' \<notin> set uri"
  then show "strip_namespace (''{'' @ uri @ ''}'' @ local) = local"
    by (rule strip_namespace_qualified)
next
  show "compare_elements e1 e2 path dfs True
          = compare_elements (local_names e1) (local_names e2) path dfs False"
    by (rule compare_local_names(1))
next
  assume "fromstring doc_prefixed = Inr tree_prefixed \<and> fromstring doc_plain = Inr tree_plain"
  then show "compare_xml fromstring doc_prefixed doc_plain True = (True, [])"
    by (simp add: compare_xml_def parse_xml_def py_strip_doc_prefixed py_strip_doc_plain
                  compare_sample_trees)
qed


theorem namespace_insensitive_witness:
  "strip_namespace ''{u}b'' = ''b''
   \<and> compare_elements tree_prefixed tree_plain [] [] True
       = compare_elements (local_names tree_prefixed) (local_names tree_plain) [] [] False
   \<and> compare_xml sample_fromstring doc_prefixed doc_plain True = (True, [])"
  using namespace_insensitive [of "''u''" "''b''" tree_prefixed tree_plain "[]" "[]"
                                 sample_fromstring]
  by (simp add: sample_fromstring_def doc_prefixed_def doc_plain_def)

lemma numbered_eq:
  "numbered i ds lines
     = lines @ map (\<lambda>k. ''  '' @ show_nat (i + k) @ ''. '' @ ds ! k) [0 ..< length ds]"
proof (induction ds arbitrary: i lines)
  case Nil
  then show ?case by simp
next
  case (Cons d ds)
  have "[0 ..< length (d # ds)] = 0 # map Suc [0 ..< length ds]"
    by (simp add: upt_conv_Cons map_Suc_upt del: upt_Suc)
  then show ?case by (simp add: Cons.IH comp_def del: upt_Suc)
qed

lemma numbered_take:
  "numbered 1 (take n ds) lines
     = lines @ map (\<lambda>k. ''  '' @ show_nat (k + 1) @ ''. '' @ ds ! k) [0 ..< min n (length ds)]"
proof -
  have "map (\<lambda>k. ''  '' @ show_nat (1 + k) @ ''. '' @ take n ds ! k) [0 ..< length (take n ds)]
        = map (\<lambda>k. ''  '' @ show_nat (k + 1) @ ''. '' @ ds ! k) [0 ..< min n (length ds)]"
    by (rule map_cong) (simp_all add: min.commute)
  then show ?thesis by (simp only: numbered_eq)
qed

text \<open>
  Claim C7. For two documents that parse, the report is the fixed message
  \<open>XML documents are identical.\<close> when no difference was recorded. Otherwise it is
  the header line, the first 20 differences at most, numbered from 1 in the order
  recorded, and then one line \<open>... and N more\<close> exactly when more than 20 were
  recorded, \<open>N\<close> being the number left out; the lines are joined by newlines.
\<close>

theorem diff_report_format:
  assumes "parse_xml fromstring expected_xml = Inr root1"
      and "parse_xml fromstring actual_xml = Inr root2"
      and "dfs = compare_elements root1 root2 [] [] True"
  shows "xml_diff_report fromstring expected_xml actual_xml =
           (if dfs = [] then ''XML documents are identical.''
            else join nl
                   ([''Found '' @ show_nat (length dfs) @ '' difference(s):'']
                    @ map (\<lambda>k. ''  '' @ show_nat (k + 1) @ ''. '' @ dfs ! k)
                        [0 ..< min 20 (length dfs)]
                    @ (if length dfs > 20
                       then [''  ... and '' @ show_nat (length dfs - 20) @ '' more'']
                       else [])))"
proof -
  have "compare_xml fromstring expected_xml actual_xml True = (dfs = [], dfs)"
    using assms by (simp add: compare_xml_def Let_def)
  then show ?thesis
    by (simp only: xml_diff_report_def Let_def numbered_take prod.case) simp
qed

theorem diff_report_format_witness:
  "xml_diff_report sample_fromstring doc_value_5 doc_value_05
     = ''Found 1 difference(s):'' @ nl @ ''  1. Text at /Root/Code/Value: '' @ sq @ ''5'' @ sq
       @ '' vs '' @ sq @ ''05'' @ sq"
proof -
  have p1: "parse_xml sample_fromstring doc_value_5 = Inr (tree_value ''5'')"
    by (simp add: parse_xml_def py_strip_def py_isspace_def sample_fromstring_def
                  doc_value_5_def doc_prefixed_def doc_plain_def)
  have p2: "parse_xml sample_fromstring doc_value_05 = Inr (tree_value ''05'')"
    by (simp add: parse_xml_def py_strip_def py_isspace_def sample_fromstring_def
                  doc_value_05_def doc_value_5_def doc_prefixed_def doc_plain_def)
  have d: "[''Text at /Root/Code/Value: '' @ sq @ ''5'' @ sq @ '' vs '' @ sq @ ''05'' @ sq]
           = compare_elements (tree_value ''5'') (tree_value ''05'') [] [] True"
    by (simp add: tree_value_def strip_namespace_def attrib_dict_def dict_ne_def msg_text_def
                  py_strip_def py_isspace_def)
  have one: "show_nat (Suc 0) = ''1''" by (simp add: show_nat.simps)
  show ?thesis
    using diff_report_format [OF p1 p2 d] by (simp add: one)
qed

text \<open>
  Claim C8. When the tags of the two nodes differ (after stripping, when stripping is
  on), the comparison appends exactly one entry, \<open>Tag mismatch at\<close> with the path it
  was given and the two tags, and returns: the result is the same whatever the text,
  the attributes and the children of the two nodes are.
\<close>

theorem tag_mismatch_halts:
  assumes "tag1 = (if strip_ns then strip_namespace g1 else g1)"
      and "tag2 = (if strip_ns then strip_namespace g2 else g2)"
      and "tag1 \<noteq> tag2"
  shows "compare_elements (Element g1 x1 at1 cs1) (Element g2 x2 at2 cs2) path dfs strip_ns
         = dfs @ [''Tag mismatch at '' @ path @ '': '' @ sq @ tag1 @ sq @ '' vs ''
                  @ sq @ tag2 @ sq]"
  using assms by (simp add: Let_def msg_tag_mismatch_def)


theorem tag_mismatch_halts_witness:
  "compare_elements (Element ''{u}b'' (Some ''1'') [(''k'', ''v'')] [Element ''c'' None [] []])
     (Element ''{u}d'' (Some ''2'') [] []) ''/a'' [''earlier''] True
   = [''earlier'', ''Tag mismatch at /a: '' @ sq @ ''b'' @ sq @ '' vs '' @ sq @ ''d'' @ sq]"
  using tag_mismatch_halts [of "''b''" True "''{u}b''" "''d''" "''{u}d''" "Some ''1''"
          "[(''k'', ''v'')]" "[Element ''c'' None [] []]" "Some ''2''" "[]" "[]" "''/a''"
          "[''earlier'']"]
  by (simp add: strip_namespace_def)
section \<open>Sandboxed tester: properties\<close>

lemma test_pairs_eq:
  "test_pairs P F fn pairs dets n calls
     = (dets @ map (test_single_pair P F fn) pairs,
        n + int (length (filter passed (map (test_single_pair P F fn) pairs))),
        calls @ map input_xml pairs)"
  by (induction pairs arbitrary: dets n calls) (simp_all add: Let_def)

lemma test_single_pair_id: "TestDetail.pair_id (test_single_pair P F fn p) = XmlPair.pair_id p"
  by (simp add: test_single_pair_def Let_def split: sum.splits py_value.splits)

lemma test_single_pair_raises:
  "py_call fn (input_xml p) = Inl exc \<Longrightarrow>
   test_single_pair P F fn p
     = \<lparr>pair_id = XmlPair.pair_id p, passed = False,
        expected_snippet = snippet (output_xml p) 300, actual_snippet = [],
        diff = ''Runtime error: '' @ exc_str exc @ nl @ F exc\<rparr>"
  by (simp add: test_single_pair_def)

lemma snippet_nonempty: "py_strip s \<noteq> [] \<Longrightarrow> snippet s n \<noteq> []"
  by (simp add: snippet_def Let_def)

lemma test_code_loaded:
  assumes "load src = Inr m" and "getattr m ''transform_xml'' PyNone = fn" and "fn \<noteq> PyNone"
  shows "test_code load P F src pairs
         = (\<lparr>total_pairs = int (length pairs),
             passed_pairs = int (length (filter passed (map (test_single_pair P F fn) pairs))),
             accuracy = py_round (if pairs \<noteq> []
                                  then of_int (int (length (filter passed
                                         (map (test_single_pair P F fn) pairs))))
                                       / of_int (int (length pairs))
                                  else 0) 4,
             details = map (test_single_pair P F fn) pairs, error_message = []\<rparr>,
            map input_xml pairs)"
  using assms
  by (cases fn) (simp_all add: test_code_def test_pairs_eq Let_def)

lemma test_code_not_loaded:
  assumes "load src = Inl exc"
  shows "test_code load P F src pairs
         = (failed_run pairs
              ((if is_syntax_error exc then ''Syntax error in generated code: ''
                else ''Failed to load generated code: '') @ exc_str exc), [])"
  using assms by (simp add: test_code_def)

lemma test_code_no_entry_point:
  assumes "load src = Inr m" and "getattr m ''transform_xml'' PyNone = PyNone"
  shows "test_code load P F src pairs
         = (failed_run pairs
              (''Generated code does not define a '' @ sq @ ''transform_xml'' @ sq
               @ '' function.''), [])"
  using assms by (simp add: test_code_def)

text \<open>
  Claim C2. When loading the candidate raises (a syntax error, or any other exception
  such as the \<open>ImportError\<close> of a module outside the allow-list), or the loaded module
  has no \<open>transform_xml\<close>, \<open>test_code\<close> returns \<open>total_pairs = len(pairs)\<close>,
  \<open>passed_pairs = 0\<close>, \<open>accuracy = 0\<close>, no details and a non-empty error message
  that carries the text of the exception, and the entry point is never invoked.
\<close>

theorem load_failure_short_circuits:
  assumes "(\<exists>exc. load src = Inl exc)
           \<or> (\<exists>m. load src = Inr m \<and> getattr m ''transform_xml'' PyNone = PyNone)"
  shows "\<exists>msg. msg \<noteq> []
           \<and> msg = (case load src of
                      Inl exc \<Rightarrow> (if is_syntax_error exc
                                   then ''Syntax error in generated code: ''
                                   else ''Failed to load generated code: '') @ exc_str exc
                    | Inr m \<Rightarrow> ''Generated code does not define a '' @ sq @ ''transform_xml''
                               @ sq @ '' function.'')
           \<and> test_code load fromstring format_exc src pairs
               = (\<lparr>total_pairs = int (length pairs), passed_pairs = 0, accuracy = 0,
                   details = [], error_message = msg\<rparr>, [])"
  using assms
proof (elim disjE exE conjE)
  fix exc assume "load src = Inl exc"
  then show ?thesis
    by (simp add: test_code_not_loaded failed_run_def)
next
  fix m assume "load src = Inr m" and "getattr m ''transform_xml'' PyNone = PyNone"
  then show ?thesis
    by (simp add: test_code_no_entry_point failed_run_def)
qed

text \<open>
  Claim C3. When the entry point raises on the input of pair \<open>i\<close>, the detail of that
  pair is failed, its diagnostic carries the text of the exception, its expected
  excerpt is the excerpt of the expected document (not empty unless that document is
  blank) and its actual excerpt is empty. Every pair is still executed and reported:
  the entry point is invoked on every input in order, there is one detail per pair in
  input order, and each detail is the verdict of its own pair alone.
\<close>

theorem fault_isolation:
  assumes "load src = Inr m" and "getattr m ''transform_xml'' PyNone = fn" and "fn \<noteq> PyNone"
      and "i < length pairs"
      and "py_call fn (input_xml (pairs ! i)) = Inl exc"
  shows "case test_code load fromstring format_exc src pairs of
           (r, calls) \<Rightarrow>
             details r ! i
               = \<lparr>pair_id = XmlPair.pair_id (pairs ! i), passed = False,
                  expected_snippet = snippet (output_xml (pairs ! i)) 300,
                  actual_snippet = [],
                  diff = ''Runtime error: '' @ exc_str exc @ nl @ format_exc exc\<rparr>
             \<and> (py_strip (output_xml (pairs ! i)) \<noteq> []
                  \<longrightarrow> expected_snippet (details r ! i) \<noteq> [])
             \<and> length (details r) = length pairs
             \<and> map TestDetail.pair_id (details r) = map XmlPair.pair_id pairs
             \<and> (\<forall>j < length pairs.
                   details r ! j = test_single_pair fromstring format_exc fn (pairs ! j))
             \<and> calls = map input_xml pairs"
  using assms
  by (simp add: test_code_loaded test_single_pair_raises test_single_pair_id snippet_nonempty
                comp_def)




lemma round_half_even_zero: "round_half_even 0 = 0"
  by (simp add: round_half_even_def)

lemma py_round_zero: "py_round 0 n = 0"
  by (simp add: py_round_def round_half_even_zero)




text \<open>
  Claim C10, as amended. When the module binds \<open>transform_xml\<close> to a value that is not
  callable and is not \<open>None\<close>, no whole-run failure is reported: the entry point is
  invoked for every pair, every pair yields a failed detail whose diagnostic is the
  runtime error \<open>object is not callable\<close>, and the result has one detail per pair and
  no passed pair. (A module that binds \<open>transform_xml\<close> to \<open>None\<close> is reported as
  defining no entry point, as the counterexample below shows.)
\<close>

theorem non_callable_entry_point:
  assumes "load src = Inr m" and "m ''transform_xml'' = Some v"
      and "v \<noteq> PyNone" and "\<not> py_callable v"
  shows "test_code load fromstring format_exc src pairs
         = (\<lparr>total_pairs = int (length pairs), passed_pairs = 0, accuracy = 0,
             details = map (\<lambda>p. \<lparr>pair_id = XmlPair.pair_id p, passed = False,
                                  expected_snippet = snippet (output_xml p) 300,
                                  actual_snippet = [],
                                  diff = ''Runtime error: '' @ sq @ py_type_name v @ sq
                                         @ '' object is not callable'' @ nl
                                         @ format_exc (PyException False
                                             (sq @ py_type_name v @ sq
                                              @ '' object is not callable''))\<rparr>) pairs,
             error_message = []\<rparr>,
            map input_xml pairs)"
proof -
  have g: "getattr m ''transform_xml'' PyNone = v"
    using assms(2) by (simp add: getattr_def)
  have c: "py_call v x = Inl (PyException False (sq @ py_type_name v @ sq
                                                 @ '' object is not callable''))" for x
    using assms(4) by (cases "(v, x)" rule: py_call.cases) simp_all
  have d: "test_single_pair fromstring format_exc v p
           = \<lparr>pair_id = XmlPair.pair_id p, passed = False,
              expected_snippet = snippet (output_xml p) 300, actual_snippet = [],
              diff = ''Runtime error: '' @ sq @ py_type_name v @ sq
                     @ '' object is not callable'' @ nl
                     @ format_exc (PyException False
                         (sq @ py_type_name v @ sq @ '' object is not callable''))\<rparr>" for p
    by (simp add: test_single_pair_raises [OF c])
  show ?thesis
    by (simp add: test_code_loaded [of load src m v, OF assms(1) g assms(3)] d py_round_zero)
qed


lemma strip_samples:
  "py_strip doc_plain = doc_plain" "py_strip doc_value_5 = doc_value_5"
  by (simp_all add: py_strip_def py_isspace_def doc_plain_def doc_value_5_def)

lemma fromstring_samples:
  "sample_fromstring doc_plain = Inr tree_plain"
  "sample_fromstring doc_value_5 = Inr (tree_value ''5'')"
  by (simp_all add: sample_fromstring_def doc_plain_def doc_value_5_def doc_value_05_def
                    doc_prefixed_def)

lemma parse_samples:
  "parse_xml sample_fromstring doc_plain = Inr tree_plain"
  "parse_xml sample_fromstring doc_value_5 = Inr (tree_value ''5'')"
  by (simp_all add: parse_xml_def strip_samples fromstring_samples)

lemma compare_samples:
  "compare_xml sample_fromstring doc_plain doc_plain True = (True, [])"
  "compare_xml sample_fromstring doc_value_5 doc_value_5 True = (True, [])"
  by (simp_all add: compare_xml_def parse_samples tree_plain_def tree_value_def Let_def
                    attrib_dict_def dict_ne_def)

lemma sample_details:
  "test_single_pair sample_fromstring sample_format_exc sample_partial
     \<lparr>input_xml = doc_value_5, output_xml = doc_value_5, pair_id = ''A''\<rparr>
   = \<lparr>pair_id = ''A'', passed = True, expected_snippet = doc_value_5,
      actual_snippet = doc_value_5, diff = []\<rparr>"
  "test_single_pair sample_fromstring sample_format_exc sample_partial
     \<lparr>input_xml = doc_plain, output_xml = doc_plain, pair_id = ''C''\<rparr>
   = \<lparr>pair_id = ''C'', passed = True, expected_snippet = doc_plain,
      actual_snippet = doc_plain, diff = []\<rparr>"
proof -
  have len: "length doc_plain \<le> 300" "length doc_value_5 \<le> 300"
    by (simp_all add: doc_plain_def doc_value_5_def)
  have call: "py_call sample_partial doc_plain = Inr (PyStr doc_plain)"
             "py_call sample_partial doc_value_5 = Inr (PyStr doc_value_5)"
    by (simp_all add: sample_partial_def doc_plain_def doc_value_5_def)
  show "test_single_pair sample_fromstring sample_format_exc sample_partial
          \<lparr>input_xml = doc_value_5, output_xml = doc_value_5, pair_id = ''A''\<rparr>
        = \<lparr>pair_id = ''A'', passed = True, expected_snippet = doc_value_5,
           actual_snippet = doc_value_5, diff = []\<rparr>"
    by (simp add: test_single_pair_def call compare_samples snippet_def strip_samples len)
  show "test_single_pair sample_fromstring sample_format_exc sample_partial
          \<lparr>input_xml = doc_plain, output_xml = doc_plain, pair_id = ''C''\<rparr>
        = \<lparr>pair_id = ''C'', passed = True, expected_snippet = doc_plain,
           actual_snippet = doc_plain, diff = []\<rparr>"
    by (simp add: test_single_pair_def call compare_samples snippet_def strip_samples len)
qed

theorem load_failure_short_circuits_witness:
  "test_code sample_load sample_fromstring sample_format_exc ''import os'' sample_pairs
   = (\<lparr>total_pairs = 3, passed_pairs = 0, accuracy = 0, details = [],
       error_message = ''Failed to load generated code: Module '' @ sq @ ''os'' @ sq
         @ '' is not allowed. Only these modules are permitted: ''
         @ join '', '' sorted_SAFE_MODULES\<rparr>, [])"
proof -
  have l: "sample_load ''import os''
           = Inl (PyException False (''Module '' @ sq @ ''os'' @ sq @ '' is not allowed. ''
                   @ ''Only these modules are permitted: '' @ join '', '' sorted_SAFE_MODULES))"
    by (simp add: sample_load_def restricted_import_def SAFE_MODULES_def)
  then have "(\<exists>exc. sample_load ''import os'' = Inl exc)
             \<or> (\<exists>m. sample_load ''import os'' = Inr m
                     \<and> getattr m ''transform_xml'' PyNone = PyNone)"
    by simp
  from load_failure_short_circuits [where load = sample_load and src = "''import os''"
         and fromstring = sample_fromstring and format_exc = sample_format_exc
         and pairs = sample_pairs, OF this]
  show ?thesis
    by (simp add: l sample_pairs_def)
qed

theorem fault_isolation_witness:
  "case test_code sample_load sample_fromstring sample_format_exc partial_source sample_pairs of
     (r, calls) \<Rightarrow>
       details r ! 1
         = \<lparr>pair_id = ''B'', passed = False, expected_snippet = doc_plain, actual_snippet = [],
            diff = ''Runtime error: unsupported document'' @ nl
                   @ sample_format_exc (PyException False ''unsupported document'')\<rparr>
       \<and> map passed (details r) = [True, False, True]
       \<and> calls = [doc_value_5, ''<bad/>'', doc_plain]"
proof -
  have l: "sample_load partial_source = Inr (bind_transform_xml sample_partial)"
    by (simp add: sample_load_def partial_source_def identity_source_def nl_def dq_def)
  have g: "getattr (bind_transform_xml sample_partial) ''transform_xml'' PyNone = sample_partial"
    by (simp add: getattr_def bind_transform_xml_def)
  have n: "sample_partial \<noteq> PyNone" by (simp add: sample_partial_def)
  have i: "1 < length sample_pairs" by (simp add: sample_pairs_def)
  have c: "py_call sample_partial (input_xml (sample_pairs ! 1))
           = Inl (PyException False ''unsupported document'')"
    by (simp add: sample_partial_def sample_pairs_def)
  have len: "length doc_plain \<le> 300" by (simp add: doc_plain_def)
  from fault_isolation [where load = sample_load and src = partial_source
         and m = "bind_transform_xml sample_partial" and fn = sample_partial and i = 1
         and pairs = sample_pairs and exc = "PyException False ''unsupported document''"
         and fromstring = sample_fromstring and format_exc = sample_format_exc, OF l g n i c]
  show ?thesis
    by (simp add: test_code_loaded [where load = sample_load and src = partial_source
                    and fn = sample_partial, OF l g n]
                  sample_pairs_def sample_details snippet_def strip_samples len)
qed



theorem non_callable_entry_point_witness:
  "test_code sample_load sample_fromstring sample_format_exc ''transform_xml = 5''
     [\<lparr>input_xml = doc_value_5, output_xml = doc_value_05, pair_id = ''A''\<rparr>]
   = (\<lparr>total_pairs = 1, passed_pairs = 0, accuracy = 0,
       details = [\<lparr>pair_id = ''A'', passed = False,
                   expected_snippet = snippet doc_value_05 300, actual_snippet = [],
                   diff = ''Runtime error: '' @ sq @ ''int'' @ sq @ '' object is not callable''
                          @ nl @ sample_format_exc (PyException False
                                   (sq @ ''int'' @ sq @ '' object is not callable''))\<rparr>],
       error_message = []\<rparr>,
      [doc_value_5])"
proof -
  have l: "sample_load ''transform_xml = 5'' = Inr (bind_transform_xml (PyObject ''int'' ''5'' None))"
    by (simp add: sample_load_def)
  have b: "bind_transform_xml (PyObject ''int'' ''5'' None) ''transform_xml''
           = Some (PyObject ''int'' ''5'' None)"
    by (simp add: bind_transform_xml_def)
  have n: "PyObject ''int'' ''5'' None \<noteq> PyNone" by simp
  have c: "\<not> py_callable (PyObject ''int'' ''5'' None)" by simp
  from non_callable_entry_point [where load = sample_load and src = "''transform_xml = 5''"
         and fromstring = sample_fromstring and format_exc = sample_format_exc, OF l b n c]
  show ?thesis by simp
qed

text \<open>
  Claim C10 as stated fails for the non-callable value \<open>None\<close>: the candidate
  \<open>transform_xml = None\<close> is reported as a whole-run failure, with no detail and no
  invocation, like a module without the attribute.
\<close>

theorem none_entry_point_counterexample:
  "sample_load ''transform_xml = None'' = Inr (bind_transform_xml PyNone)
   \<and> bind_transform_xml PyNone ''transform_xml'' = Some PyNone
   \<and> \<not> py_callable PyNone
   \<and> test_code sample_load sample_fromstring sample_format_exc ''transform_xml = None''
         [\<lparr>input_xml = doc_value_5, output_xml = doc_value_05, pair_id = ''A''\<rparr>]
       = (\<lparr>total_pairs = 1, passed_pairs = 0, accuracy = 0, details = [],
           error_message = ''Generated code does not define a '' @ sq @ ''transform_xml'' @ sq
                           @ '' function.''\<rparr>,
          [])"
proof -
  have l: "sample_load ''transform_xml = None'' = Inr (bind_transform_xml PyNone)"
    by (simp add: sample_load_def)
  have b: "bind_transform_xml PyNone ''transform_xml'' = Some PyNone"
    by (simp add: bind_transform_xml_def)
  have g: "getattr (bind_transform_xml PyNone) ''transform_xml'' PyNone = PyNone"
    by (simp add: getattr_def b)
  show ?thesis
    by (simp add: l b test_code_no_entry_point [where load = sample_load, OF l g] failed_run_def)
qed
section \<open>Orchestrator and feedback compiler: properties\<close>



lemma analyze_spec:
  fixes srv :: "('w, 'a) services"
  assumes "analyze srv fb (job, w, tr) = (res, job', w', tr')"
  shows "\<exists>req reply. post_analyze srv w req = (reply, w')
           \<and> tr' = tr @ [(req, AnalyzeReply reply)]
           \<and> res = failure_of reply ''Analyzer''
           \<and> current_iteration job' = current_iteration job
           \<and> max_iterations job' = max_iterations job
           \<and> accuracy_threshold job' = accuracy_threshold job"
proof -
  define job1 where
    "job1 = job\<lparr>status := ANALYZING,
                 message := (if fb \<noteq> []
                             then ''Re-analyzing rules with feedback (iteration ''
                                  @ show_int (current_iteration job) @ '')...''
                             else ''Analyzing XML pairs...'')\<rparr>"
  define req :: "'a request" where
    "req = AnalyzeRequest (xml_pairs job1) (if fb \<noteq> [] then Some fb else None)"
  obtain reply w1 where p: "post_analyze srv w req = (reply, w1)"
    by (cases "post_analyze srv w req")
  have j: "current_iteration job1 = current_iteration job"
          "max_iterations job1 = max_iterations job"
          "accuracy_threshold job1 = accuracy_threshold job"
    by (simp_all add: job1_def)
  have e: "analyze srv fb (job, w, tr)
           = (case reply of
                Inl exc \<Rightarrow> (Some exc, job1, w1, tr @ [(req, AnalyzeReply reply)])
              | Inr resp \<Rightarrow>
                  (case check_response resp ''Analyzer'' of
                     Inl exc \<Rightarrow> (Some exc, job1, w1, tr @ [(req, AnalyzeReply reply)])
                   | Inr a \<Rightarrow> (None, job1\<lparr>analysis := Some a\<rparr>, w1,
                               tr @ [(req, AnalyzeReply reply)])))"
    unfolding analyze_def Let_def job1_def [symmetric] prod.case req_def [symmetric] p ..
  show ?thesis
    using assms p j unfolding e
    by (intro exI [of _ req] exI [of _ reply])
       (auto simp: failure_of_def split: sum.splits)
qed


lemma generate_spec:
  fixes srv :: "('w, 'a) services"
  assumes "generate srv fb (job, w, tr) = (res, job', w', tr')"
  shows "\<exists>req reply. post_generate srv w req = (reply, w')
           \<and> tr' = tr @ [(req, GenerateReply reply)]
           \<and> res = failure_of reply ''Generator''
           \<and> current_iteration job' = current_iteration job
           \<and> max_iterations job' = max_iterations job
           \<and> accuracy_threshold job' = accuracy_threshold job"
proof -
  define job1 where
    "job1 = job\<lparr>status := GENERATING,
                 message := ''Generating code (iteration ''
                            @ show_int (current_iteration job) @ '')...''\<rparr>"
  define req :: "'a request" where
    "req = GenerateRequest (xml_pairs job1) (analysis job1)
             (if fb \<noteq> [] then Some fb else None)"
  obtain reply w1 where p: "post_generate srv w req = (reply, w1)"
    by (cases "post_generate srv w req")
  have j: "current_iteration job1 = current_iteration job"
          "max_iterations job1 = max_iterations job"
          "accuracy_threshold job1 = accuracy_threshold job"
    by (simp_all add: job1_def)
  have e: "generate srv fb (job, w, tr)
           = (case reply of
                Inl exc \<Rightarrow> (Some exc, job1, w1, tr @ [(req, GenerateReply reply)])
              | Inr resp \<Rightarrow>
                  (case check_response resp ''Generator'' of
                     Inl exc \<Rightarrow> (Some exc, job1, w1, tr @ [(req, GenerateReply reply)])
                   | Inr g \<Rightarrow> (None, job1\<lparr>generated_code := Some g\<rparr>, w1,
                               tr @ [(req, GenerateReply reply)])))"
    unfolding generate_def Let_def job1_def [symmetric] prod.case req_def [symmetric] p ..
  show ?thesis
    using assms p j unfolding e
    by (intro exI [of _ req] exI [of _ reply])
       (auto simp: failure_of_def split: sum.splits)
qed

lemma test_spec:
  fixes srv :: "('w, 'a) services"
  assumes "test srv (job, w, tr) = (res, job', w', tr')"
  shows "\<exists>req reply. post_test srv w req = (reply, w')
           \<and> tr' = tr @ [(req, TestReply reply)]
           \<and> res = failure_of reply ''Tester''
           \<and> current_iteration job' = current_iteration job
           \<and> max_iterations job' = max_iterations job
           \<and> accuracy_threshold job' = accuracy_threshold job
           \<and> (res = None \<longrightarrow>
                (\<exists>resp r. reply = Inr resp \<and> check_response resp ''Tester'' = Inr r
                          \<and> test_result job' = Some r))"
proof -
  define job1 where
    "job1 = job\<lparr>status := TESTING,
                 message := ''Testing generated code (iteration ''
                            @ show_int (current_iteration job) @ '')...''\<rparr>"
  define req :: "'a request" where
    "req = TestRequest (xml_pairs job1)
             (case generated_code job1 of Some g \<Rightarrow> code g | None \<Rightarrow> [])"
  obtain reply w1 where p: "post_test srv w req = (reply, w1)"
    by (cases "post_test srv w req")
  have j: "current_iteration job1 = current_iteration job"
          "max_iterations job1 = max_iterations job"
          "accuracy_threshold job1 = accuracy_threshold job"
    by (simp_all add: job1_def)
  have e: "test srv (job, w, tr)
           = (case reply of
                Inl exc \<Rightarrow> (Some exc, job1, w1, tr @ [(req, TestReply reply)])
              | Inr resp \<Rightarrow>
                  (case check_response resp ''Tester'' of
                     Inl exc \<Rightarrow> (Some exc, job1, w1, tr @ [(req, TestReply reply)])
                   | Inr r \<Rightarrow> (None, job1\<lparr>test_result := Some r\<rparr>, w1,
                               tr @ [(req, TestReply reply)])))"
    unfolding test_def Let_def job1_def [symmetric] prod.case req_def [symmetric] p ..
  show ?thesis
    using assms p j unfolding e
    by (intro exI [of _ req] exI [of _ reply])
       (auto simp: failure_of_def split: sum.splits)
qed

lemma run_loop_exhausted:
  "\<not> current_iteration job < max_iterations job \<Longrightarrow>
   run_loop srv fb (job, w, tr)
     = (None,
        job\<lparr>status := COMPLETED,
             message := msg_exhausted (current_iteration job)
                          (case test_result job of
                             Some r \<Rightarrow> fmt_percent (accuracy r)
                           | None \<Rightarrow> ''N/A'')\<rparr>,
        w, tr)"
  by (subst run_loop.simps) (simp add: Let_def)

lemma run_loop_analyze_fails:
  "current_iteration job < max_iterations job \<Longrightarrow>
   analyze srv fb (job\<lparr>current_iteration := current_iteration job + 1\<rparr>, w, tr) = (Some exc, st) \<Longrightarrow>
   run_loop srv fb (job, w, tr) = (Some exc, st)"
  by (subst run_loop.simps) simp

lemma run_loop_generate_fails:
  "current_iteration job < max_iterations job \<Longrightarrow>
   analyze srv fb (job\<lparr>current_iteration := current_iteration job + 1\<rparr>, w, tr) = (None, st1) \<Longrightarrow>
   generate srv fb st1 = (Some exc, st) \<Longrightarrow>
   run_loop srv fb (job, w, tr) = (Some exc, st)"
  by (subst run_loop.simps) simp

lemma run_loop_test_fails:
  "current_iteration job < max_iterations job \<Longrightarrow>
   analyze srv fb (job\<lparr>current_iteration := current_iteration job + 1\<rparr>, w, tr) = (None, st1) \<Longrightarrow>
   generate srv fb st1 = (None, st2) \<Longrightarrow>
   test srv st2 = (Some exc, st) \<Longrightarrow>
   run_loop srv fb (job, w, tr) = (Some exc, st)"
  by (subst run_loop.simps) simp

lemma run_loop_threshold_met:
  "current_iteration job < max_iterations job \<Longrightarrow>
   analyze srv fb (job\<lparr>current_iteration := current_iteration job + 1\<rparr>, w, tr) = (None, st1) \<Longrightarrow>
   generate srv fb st1 = (None, st2) \<Longrightarrow>
   test srv st2 = (None, job3, w3, tr3) \<Longrightarrow>
   test_result job3 = Some r \<Longrightarrow>
   accuracy r \<ge> accuracy_threshold job3 \<Longrightarrow>
   run_loop srv fb (job, w, tr)
     = (None,
        job3\<lparr>status := COMPLETED,
              message := msg_completed (accuracy r) (current_iteration job3)\<rparr>,
        w3, tr3)"
  by (subst run_loop.simps) simp

lemma run_loop_next_iteration:
  "current_iteration job < max_iterations job \<Longrightarrow>
   analyze srv fb (job\<lparr>current_iteration := current_iteration job + 1\<rparr>, w, tr) = (None, st1) \<Longrightarrow>
   generate srv fb st1 = (None, st2) \<Longrightarrow>
   test srv st2 = (None, job3, w3, tr3) \<Longrightarrow>
   test_result job3 = Some r \<Longrightarrow>
   \<not> accuracy r \<ge> accuracy_threshold job3 \<Longrightarrow>
   run_loop srv fb (job, w, tr)
     = run_loop srv (build_feedback job3)
         (if current_iteration job3 < max_iterations job3
          then job3\<lparr>status := ITERATING,
                     message := msg_iterating (current_iteration job3) (accuracy r)
                                  (accuracy_threshold job3)\<rparr>
          else job3,
          w3, tr3)"
  by (subst run_loop.simps) simp


lemma iteration_cases:
  fixes srv :: "('w, 'a) services"
  assumes lt: "current_iteration job < max_iterations job"
  obtains
    (analyze_failed) exc job' q1 p1 w1 where
      "run_loop srv fb (job, w, tr) = (Some exc, job', w1, tr @ [(q1, AnalyzeReply p1)])"
      "post_analyze srv w q1 = (p1, w1)" "failure_of p1 ''Analyzer'' = Some exc"
  | (generate_failed) exc job' q1 p1 w1 q2 p2 w2 where
      "run_loop srv fb (job, w, tr)
         = (Some exc, job', w2, tr @ [(q1, AnalyzeReply p1), (q2, GenerateReply p2)])"
      "post_analyze srv w q1 = (p1, w1)" "failure_of p1 ''Analyzer'' = None"
      "post_generate srv w1 q2 = (p2, w2)" "failure_of p2 ''Generator'' = Some exc"
  | (test_failed) exc job' q1 p1 w1 q2 p2 w2 q3 p3 w3 where
      "run_loop srv fb (job, w, tr)
         = (Some exc, job', w3,
            tr @ [(q1, AnalyzeReply p1), (q2, GenerateReply p2), (q3, TestReply p3)])"
      "post_analyze srv w q1 = (p1, w1)" "failure_of p1 ''Analyzer'' = None"
      "post_generate srv w1 q2 = (p2, w2)" "failure_of p2 ''Generator'' = None"
      "post_test srv w2 q3 = (p3, w3)" "failure_of p3 ''Tester'' = Some exc"
  | (threshold_met) job3 q1 p1 w1 q2 p2 w2 q3 resp w3 r where
      "run_loop srv fb (job, w, tr)
         = (None,
            job3\<lparr>status := COMPLETED,
                  message := msg_completed (accuracy r) (current_iteration job3)\<rparr>,
            w3,
            tr @ [(q1, AnalyzeReply p1), (q2, GenerateReply p2), (q3, TestReply (Inr resp))])"
      "post_analyze srv w q1 = (p1, w1)" "failure_of p1 ''Analyzer'' = None"
      "post_generate srv w1 q2 = (p2, w2)" "failure_of p2 ''Generator'' = None"
      "post_test srv w2 q3 = (Inr resp, w3)" "check_response resp ''Tester'' = Inr r"
      "test_result job3 = Some r" "accuracy r \<ge> accuracy_threshold job"
      "current_iteration job3 = current_iteration job + 1"
  | (next_iteration) job3 fb' q1 p1 w1 q2 p2 w2 q3 resp w3 r where
      "run_loop srv fb (job, w, tr)
         = run_loop srv fb'
             (job3, w3,
              tr @ [(q1, AnalyzeReply p1), (q2, GenerateReply p2), (q3, TestReply (Inr resp))])"
      "post_analyze srv w q1 = (p1, w1)" "failure_of p1 ''Analyzer'' = None"
      "post_generate srv w1 q2 = (p2, w2)" "failure_of p2 ''Generator'' = None"
      "post_test srv w2 q3 = (Inr resp, w3)" "check_response resp ''Tester'' = Inr r"
      "test_result job3 = Some r" "accuracy r < accuracy_threshold job"
      "current_iteration job3 = current_iteration job + 1"
      "max_iterations job3 = max_iterations job"
      "accuracy_threshold job3 = accuracy_threshold job"
proof -
  let ?job0 = "job\<lparr>current_iteration := current_iteration job + 1\<rparr>"
  obtain r1 j1 w1 t1 where a: "analyze srv fb (?job0, w, tr) = (r1, j1, w1, t1)"
    by (cases "analyze srv fb (?job0, w, tr)")
  from analyze_spec [OF a] obtain q1 p1 where
    a1: "post_analyze srv w q1 = (p1, w1)" and a2: "t1 = tr @ [(q1, AnalyzeReply p1)]" and
    a3: "r1 = failure_of p1 ''Analyzer''" and
    a4: "current_iteration j1 = current_iteration job + 1"
        "max_iterations j1 = max_iterations job"
        "accuracy_threshold j1 = accuracy_threshold job"
    by auto
  show thesis
  proof (cases r1)
    case (Some exc)
    with a lt a2 have
      r: "run_loop srv fb (job, w, tr) = (Some exc, j1, w1, tr @ [(q1, AnalyzeReply p1)])"
      by (simp add: run_loop_analyze_fails)
    have f: "failure_of p1 ''Analyzer'' = Some exc" using a3 Some by simp
    show thesis by (rule analyze_failed [OF r a1 f])
  next
    case None
    note n1 = None
    have f1: "failure_of p1 ''Analyzer'' = None" using a3 n1 by simp
    obtain r2 j2 w2 t2 where g: "generate srv fb (j1, w1, t1) = (r2, j2, w2, t2)"
      by (cases "generate srv fb (j1, w1, t1)")
    from generate_spec [OF g] obtain q2 p2 where
      g1: "post_generate srv w1 q2 = (p2, w2)" and g2: "t2 = t1 @ [(q2, GenerateReply p2)]" and
      g3: "r2 = failure_of p2 ''Generator''" and
      g4: "current_iteration j2 = current_iteration j1" "max_iterations j2 = max_iterations j1"
          "accuracy_threshold j2 = accuracy_threshold j1"
      by auto
    show thesis
    proof (cases r2)
      case (Some exc)
      with a g lt n1 a2 g2 have
        r: "run_loop srv fb (job, w, tr)
              = (Some exc, j2, w2, tr @ [(q1, AnalyzeReply p1), (q2, GenerateReply p2)])"
        by (simp add: run_loop_generate_fails)
      have f: "failure_of p2 ''Generator'' = Some exc" using g3 Some by simp
      show thesis by (rule generate_failed [OF r a1 f1 g1 f])
    next
      case None
      note n2 = None
      have f2: "failure_of p2 ''Generator'' = None" using g3 n2 by simp
      obtain r3 j3 w3 t3 where t: "test srv (j2, w2, t2) = (r3, j3, w3, t3)"
        by (cases "test srv (j2, w2, t2)")
      from test_spec [OF t] obtain q3 p3 where
        t1: "post_test srv w2 q3 = (p3, w3)" and t2: "t3 = t2 @ [(q3, TestReply p3)]" and
        t3: "r3 = failure_of p3 ''Tester''" and
        t4: "current_iteration j3 = current_iteration j2" "max_iterations j3 = max_iterations j2"
            "accuracy_threshold j3 = accuracy_threshold j2" and
        t5: "r3 = None \<longrightarrow> (\<exists>resp r. p3 = Inr resp \<and> check_response resp ''Tester'' = Inr r
                                     \<and> test_result j3 = Some r)"
        by auto
      show thesis
      proof (cases r3)
        case (Some exc)
        with a g t lt n1 n2 a2 g2 t2 have
          r: "run_loop srv fb (job, w, tr)
                = (Some exc, j3, w3,
                   tr @ [(q1, AnalyzeReply p1), (q2, GenerateReply p2), (q3, TestReply p3)])"
          by (simp add: run_loop_test_fails)
        have f3: "failure_of p3 ''Tester'' = Some exc" using t3 Some by simp
        show thesis by (rule test_failed [OF r a1 f1 g1 f2 t1 f3])
      next
        case None
        with t5 obtain resp r where
          p3: "p3 = Inr resp" and c: "check_response resp ''Tester'' = Inr r" and
          tr3: "test_result j3 = Some r"
          by auto
        have thr: "accuracy_threshold j3 = accuracy_threshold job"
          using a4 g4 t4 by simp
        have cur: "current_iteration j3 = current_iteration job + 1"
          using a4 g4 t4 by simp
        have mx: "max_iterations j3 = max_iterations job"
          using a4 g4 t4 by simp
        have log: "t3 = tr @ [(q1, AnalyzeReply p1), (q2, GenerateReply p2),
                             (q3, TestReply (Inr resp))]"
          using a2 g2 t2 p3 by simp
        have t1': "post_test srv w2 q3 = (Inr resp, w3)" using t1 p3 by simp
        have a': "analyze srv fb (?job0, w, tr) = (None, j1, w1, t1)" using a n1 by simp
        have g': "generate srv fb (j1, w1, t1) = (None, j2, w2, t2)" using g n2 by simp
        have t': "test srv (j2, w2, t2) = (None, j3, w3, t3)" using t None by simp
        show thesis
        proof (cases "accuracy r \<ge> accuracy_threshold j3")
          case True
          have r: "run_loop srv fb (job, w, tr)
                = (None,
                   j3\<lparr>status := COMPLETED,
                       message := msg_completed (accuracy r) (current_iteration j3)\<rparr>,
                   w3,
                   tr @ [(q1, AnalyzeReply p1), (q2, GenerateReply p2),
                         (q3, TestReply (Inr resp))])"
            using run_loop_threshold_met [OF lt a' g' t' tr3 True] log by simp
          have ge: "accuracy r \<ge> accuracy_threshold job" using True thr by simp
          show thesis by (rule threshold_met [OF r a1 f1 g1 f2 t1' c tr3 ge cur])
        next
          case False
          let ?j = "if current_iteration j3 < max_iterations j3
                    then j3\<lparr>status := ITERATING,
                             message := msg_iterating (current_iteration j3) (accuracy r)
                                          (accuracy_threshold j3)\<rparr>
                    else j3"
          have r: "run_loop srv fb (job, w, tr)
                   = run_loop srv (build_feedback j3)
                       (?j, w3,
                        tr @ [(q1, AnalyzeReply p1), (q2, GenerateReply p2),
                              (q3, TestReply (Inr resp))])"
            using run_loop_next_iteration [OF lt a' g' t' tr3 False] log by simp
          have j: "test_result ?j = Some r" "current_iteration ?j = current_iteration job + 1"
            "max_iterations ?j = max_iterations job"
            "accuracy_threshold ?j = accuracy_threshold job"
            using tr3 cur mx thr by simp_all
          have less: "accuracy r < accuracy_threshold job" using False thr by simp
          show thesis
            by (rule next_iteration [OF r a1 f1 g1 f2 t1' c j(1) less j(2) j(3) j(4)])
        qed
      qed
    qed
  qed
qed


lemma failure_of_checked: "check_response resp name = Inr r \<Longrightarrow> failure_of (Inr resp) name = None"
  by (simp add: failure_of_def)

lemma run_loop_log:
  fixes srv :: "('w, 'a) services"
  assumes "\<forall>e \<in> set tr. reply_error (snd e) = None"
  shows "\<exists>res job' w' tr'. run_loop srv fb (job, w, tr) = (res, job', w', tr')
           \<and> (\<forall>e \<in> set (butlast tr'). reply_error (snd e) = None)
           \<and> (case res of
                 Some exc \<Rightarrow> tr' \<noteq> [] \<and> reply_error (snd (last tr')) = Some exc
               | None \<Rightarrow> status job' = COMPLETED
                          \<and> (\<forall>e \<in> set tr'. reply_error (snd e) = None))"
  using assms
proof (induction "nat (max_iterations job - current_iteration job)"
       arbitrary: fb job w tr rule: less_induct)
  case less
  show ?case
  proof (cases "current_iteration job < max_iterations job")
    case False
    with less.prems show ?thesis
      by (auto simp: run_loop_exhausted dest: in_set_butlastD)
  next
    case True
    from True show ?thesis
    proof (cases rule: iteration_cases [where srv = srv and fb = fb and w = w and tr = tr])
      case (analyze_failed exc job' q1 p1 w1)
      with less.prems show ?thesis by simp
    next
      case (generate_failed exc job' q1 p1 w1 q2 p2 w2)
      with less.prems show ?thesis by (simp add: butlast_append)
    next
      case (test_failed exc job' q1 p1 w1 q2 p2 w2 q3 p3 w3)
      with less.prems show ?thesis by (simp add: butlast_append)
    next
      case (threshold_met job3 q1 p1 w1 q2 p2 w2 q3 resp w3 r)
      with less.prems show ?thesis by (simp add: butlast_append failure_of_checked)
    next
      case (next_iteration job3 fb' q1 p1 w1 q2 p2 w2 q3 resp w3 r)
      let ?tr = "tr @ [(q1, AnalyzeReply p1), (q2, GenerateReply p2), (q3, TestReply (Inr resp))]"
      have m: "nat (max_iterations job3 - current_iteration job3)
               < nat (max_iterations job - current_iteration job)"
        using True next_iteration by simp
      have ok: "\<forall>e \<in> set ?tr. reply_error (snd e) = None"
        using less.prems next_iteration by (simp add: failure_of_checked)
      from less.hyps [OF m ok, of fb' w3] show ?thesis
        by (simp only: next_iteration(1))
    qed
  qed
qed

text \<open>
  Claim C5, as amended. In the log of a run, every call but the last succeeded: a call
  that raises, or whose response is refused, is the last call made. When the last call
  failed, the job is \<open>FAILED\<close> and its message is \<open>Error:\<close>, the text of the exception, a
  newline and the whole diagnostic trace, not truncated. The exception is the one the
  call raised; for a response with status 400 or more it is
  \<open>[<CollaboratorName>] <status>: <detail>\<close>, the detail being the one of the JSON
  body or else the first 500 characters of the body.
\<close>

theorem failed_call_aborts:
  fixes srv :: "('w, 'a) services"
  shows "(case run srv format_exc job w of
            (job', w', tr) \<Rightarrow>
              (\<forall>k. Suc k < length tr \<longrightarrow> reply_error (snd (tr ! k)) = None)
              \<and> (\<forall>exc. tr \<noteq> [] \<and> reply_error (snd (last tr)) = Some exc
                     \<longrightarrow> status job' = FAILED
                         \<and> message job' = ''Error: '' @ exc_str exc @ nl @ format_exc exc))
         \<and> failure_of (Inl exc0) service_name = Some exc0
         \<and> (400 \<le> status_code resp
              \<longrightarrow> failure_of (Inr resp) service_name
                  = Some (PyException False
                            (''['' @ service_name @ ''] '' @ show_int (status_code resp) @ '': ''
                             @ (case json_detail resp of
                                  Some d \<Rightarrow> d
                                | None \<Rightarrow> take 500 (resp_text resp)))))"
proof (intro conjI)
  from run_loop_log [of "[]" srv "[]" job w] obtain res job1 w1 tr1 where
    r: "run_loop srv [] (job, w, []) = (res, job1, w1, tr1)" and
    b: "\<forall>e \<in> set (butlast tr1). reply_error (snd e) = None" and
    c: "case res of
          Some exc \<Rightarrow> tr1 \<noteq> [] \<and> reply_error (snd (last tr1)) = Some exc
        | None \<Rightarrow> status job1 = COMPLETED \<and> (\<forall>e \<in> set tr1. reply_error (snd e) = None)"
    by auto
  have early: "reply_error (snd (tr1 ! k)) = None" if "Suc k < length tr1" for k
  proof -
    from that have "tr1 ! k = butlast tr1 ! k" by (simp add: nth_butlast)
    moreover from that have "butlast tr1 ! k \<in> set (butlast tr1)" by (intro nth_mem) simp
    ultimately show ?thesis using b by simp
  qed
  show "case run srv format_exc job w of
          (job', w', tr) \<Rightarrow>
            (\<forall>k. Suc k < length tr \<longrightarrow> reply_error (snd (tr ! k)) = None)
            \<and> (\<forall>exc. tr \<noteq> [] \<and> reply_error (snd (last tr)) = Some exc
                   \<longrightarrow> status job' = FAILED
                       \<and> message job' = ''Error: '' @ exc_str exc @ nl @ format_exc exc)"
  proof (cases res)
    case None
    with c have "\<forall>e \<in> set tr1. reply_error (snd e) = None" by simp
    then have "tr1 \<noteq> [] \<longrightarrow> reply_error (snd (last tr1)) = None" by simp
    with None r early show ?thesis by (auto simp: run_def)
  next
    case (Some exc)
    with c r early show ?thesis by (simp add: run_def)
  qed
next
  show "failure_of (Inl exc0) service_name = Some exc0"
    by (simp add: failure_of_def)
next
  show "400 \<le> status_code resp
          \<longrightarrow> failure_of (Inr resp) service_name
              = Some (PyException False
                        (''['' @ service_name @ ''] '' @ show_int (status_code resp) @ '': ''
                         @ (case json_detail resp of
                              Some d \<Rightarrow> d
                            | None \<Rightarrow> take 500 (resp_text resp))))"
    by (simp add: failure_of_def check_response_def)
qed





lemma show_nat_digits: "show_nat (Suc 0) = ''1''" "show_nat 2 = ''2''" "show_nat 5 = ''5''"
  "show_nat 50 = ''50''" "show_nat 95 = ''95''" "show_nat 500 = ''500''"
  by (simp_all add: show_nat.simps)







lemma analyze_sample_job:
  "analyze srv [] (sample_job\<lparr>current_iteration := current_iteration sample_job + 1\<rparr>, (), [])
     = (failure_of (fst (post_analyze srv () (AnalyzeRequest sample_pairs None))) ''Analyzer'',
        (case failure_of (fst (post_analyze srv () (AnalyzeRequest sample_pairs None))) ''Analyzer'' of
           Some exc \<Rightarrow> sample_job\<lparr>current_iteration := 1, status := ANALYZING,
                                  message := ''Analyzing XML pairs...''\<rparr>
         | None \<Rightarrow>
             (case fst (post_analyze srv () (AnalyzeRequest sample_pairs None)) of
                Inr resp \<Rightarrow>
                  (case check_response resp ''Analyzer'' of
                     Inr a \<Rightarrow> sample_job\<lparr>current_iteration := 1, status := ANALYZING,
                                        message := ''Analyzing XML pairs...'',
                                        analysis := Some a\<rparr>))),
        (), [(AnalyzeRequest sample_pairs None,
              AnalyzeReply (fst (post_analyze srv () (AnalyzeRequest sample_pairs None))))])"
  by (cases "post_analyze srv () (AnalyzeRequest sample_pairs None)")
     (auto simp: analyze_def failure_of_def Let_def sample_job_def split: sum.splits)

theorem failed_call_aborts_witness:
  "case run failing_services sample_format_exc sample_job () of
     (job', w', tr) \<Rightarrow>
       tr = [(AnalyzeRequest sample_pairs None, AnalyzeReply (Inr error_500))]
       \<and> status job' = FAILED
       \<and> message job'
           = ''Error: [Analyzer] 500: Internal Server Error'' @ nl
             @ sample_format_exc (PyException False ''[Analyzer] 500: Internal Server Error'')"
proof -
  let ?exc = "PyException False ''[Analyzer] 500: Internal Server Error''"
  have p: "fst (post_analyze failing_services () (AnalyzeRequest sample_pairs None)) = Inr error_500"
    by (simp add: failing_services_def)
  have e: "failure_of (Inr error_500) ''Analyzer'' = Some ?exc"
    by (simp add: failure_of_def check_response_def error_500_def show_int_def show_nat_digits)
  have lt: "current_iteration sample_job < max_iterations sample_job"
    by (simp add: sample_job_def)
  have "run_loop failing_services [] (sample_job, (), [])
        = (Some ?exc,
           sample_job\<lparr>current_iteration := 1, status := ANALYZING,
                      message := ''Analyzing XML pairs...''\<rparr>,
           (), [(AnalyzeRequest sample_pairs None, AnalyzeReply (Inr error_500))])"
    by (rule run_loop_analyze_fails [OF lt]) (simp add: analyze_sample_job p e)
  then have r: "run failing_services sample_format_exc sample_job ()
        = (sample_job\<lparr>current_iteration := 1, status := FAILED,
                      message := ''Error: '' @ exc_str ?exc @ nl @ sample_format_exc ?exc\<rparr>,
           (), [(AnalyzeRequest sample_pairs None, AnalyzeReply (Inr error_500))])"
    by (simp add: run_def)
  from failed_call_aborts [where srv = failing_services and format_exc = sample_format_exc
         and job = sample_job and w = "()" and ?exc0.0 = ?exc and service_name = "''Analyzer''"
         and resp = error_500]
  show ?thesis
    by (simp add: r)
qed

text \<open>
  Claim C5 as stated fails when the call itself raises: with an Analyzer that cannot be
  reached, the job is \<open>FAILED\<close> after the single call, and its message is the text of
  the transport exception and the trace (its frames left out here); the form
  \<open>[Analyzer] <status>: <detail>\<close> does not occur in it. The trace is not truncated
  either: no bound holds for the length of the message whatever the trace is.
\<close>

theorem unreachable_collaborator_counterexample:
  "case run unreachable_services sample_format_exc sample_job () of
     (job', w', tr) \<Rightarrow>
       tr = [(AnalyzeRequest sample_pairs None,
              AnalyzeReply (Inl (PyException False ''All connection attempts failed'')))]
       \<and> status job' = FAILED
       \<and> message job'
           = ''Error: All connection attempts failed'' @ nl
             @ ''Traceback (most recent call last):'' @ nl
             @ ''Exception: All connection attempts failed'' @ nl
       \<and> \<not> sublist ''[Analyzer]'' (message job')
       \<and> \<not> (\<exists>n. \<forall>format_exc.
                length (message (fst (run unreachable_services format_exc sample_job ()))) \<le> n)"
proof -
  let ?exc = "PyException False ''All connection attempts failed''"
  have p: "fst (post_analyze unreachable_services () (AnalyzeRequest sample_pairs None)) = Inl ?exc"
    by (simp add: unreachable_services_def)
  have e: "failure_of (Inl ?exc :: py_exception + unit http_response) ''Analyzer'' = Some ?exc"
    by (simp add: failure_of_def)
  have lt: "current_iteration sample_job < max_iterations sample_job"
    by (simp add: sample_job_def)
  have "run_loop unreachable_services [] (sample_job, (), [])
        = (Some ?exc,
           sample_job\<lparr>current_iteration := 1, status := ANALYZING,
                      message := ''Analyzing XML pairs...''\<rparr>,
           (), [(AnalyzeRequest sample_pairs None, AnalyzeReply (Inl ?exc))])"
    by (rule run_loop_analyze_fails [OF lt]) (simp add: analyze_sample_job p e)
  then have r: "run unreachable_services fe sample_job ()
        = (sample_job\<lparr>current_iteration := 1, status := FAILED,
                      message := ''Error: '' @ exc_str ?exc @ nl @ fe ?exc\<rparr>,
           (), [(AnalyzeRequest sample_pairs None, AnalyzeReply (Inl ?exc))])" for fe
    by (simp add: run_def)
  have u: "\<not> (\<exists>n. \<forall>format_exc.
                length (message (fst (run unreachable_services format_exc sample_job ()))) \<le> n)"
  proof
    assume "\<exists>n. \<forall>format_exc.
              length (message (fst (run unreachable_services format_exc sample_job ()))) \<le> n"
    then obtain n where
      "length (message (fst (run unreachable_services (\<lambda>e. replicate (Suc n) CHR ''x'')
                               sample_job ()))) \<le> n"
      by blast
    then show False by (simp add: r)
  qed
  have n: "\<not> sublist ''[Analyzer]''
             (''Error: All connection attempts failed'' @ nl
              @ ''Traceback (most recent call last):'' @ nl
              @ ''Exception: All connection attempts failed'' @ nl)"
    by (simp add: nl_def sublist_Cons_right prefix_Cons)
  show ?thesis
    using n u by (simp add: r sample_format_exc_def)
qed

end
